theory Spec2Isabelle
  imports Complex_Main
begin

section \<open>Data model of \<^verbatim>\<open>index.ts\<close>\<close>

text \<open>
  The estimation engine of the wait optimizer computes with JavaScript numbers. They are
  modelled as real numbers with exact arithmetic: \<open>NaN\<close>, the infinities and the rounding
  error of IEEE doubles are not represented. Quantities that the source builds from
  integers only (seconds of a time of day, milliseconds of a parsed date) are integers.
  An optional or nullable field is an \<open>option\<close>, with \<open>None\<close> for an absent,
  \<^verbatim>\<open>undefined\<close> or \<^verbatim>\<open>null\<close> value. A thrown \<^verbatim>\<open>Error\<close> is the left summand of a
  sum type and carries the message of the source.

  Field names are global here, so the \<^verbatim>\<open>mode\<close> of the output is \<open>out_mode\<close> and the two
  \<^verbatim>\<open>rationale\<close> lists are \<open>rec_rationale\<close> and \<open>eco_rationale\<close>.
\<close>

datatype Mode = Purchase_rate | Winner_timestamps | Other_mode string

datatype PurchaseModel = Global | Per_lane

datatype CadenceModel = Regular | Mixed | Random

datatype error = Error string

record Inputs =
  mode :: Mode
  is_weekend_or_holiday :: "bool option"
  model :: "PurchaseModel option"
  observed_purchases :: "real option"
  observed_minutes :: "real option"
  observed_lanes :: "real option"
  total_open_lanes :: "real option"
  winner_timestamps :: "string list option"
  elapsed_since_last_winner_minutes :: "real option"
  target_hit_probability :: "real option"
  confidence_buffer :: "real option"
  max_wait_minutes :: "real option"
  time_value_per_minute :: "real option"
  expected_bonus_value :: "real option"

record WaitEstimates =
  mean_interval_between_winners :: real
  expected_wait_to_next_winner :: real
  p50_wait_to_next_winner :: real
  p75_wait_to_next_winner :: real
  p90_wait_to_next_winner :: real

record Rates =
  purchases_per_minute_observed :: real
  purchases_per_minute_estimated :: real
  purchases_per_minute_conservative :: real
  lane_scale_factor :: real

record CadenceAnalysis =
  intervals_minutes :: "real list"
  interval_mean_minutes :: real
  interval_std_minutes :: real
  interval_cv :: real
  cadence_model :: CadenceModel

record Recommendation =
  optimal_wait_minutes :: real
  probability_next_winner_within_optimal_wait :: real
  decision_rule :: string
  rec_rationale :: "string list"

record Economics =
  expected_value_for_optimal_wait :: real
  expected_time_cost_for_optimal_wait :: real
  net_expected_value_for_optimal_wait :: real
  value_expected_per_minute :: real
  break_even_wait_minutes :: real
  eco_rationale :: "string list"

record Output =
  out_mode :: Mode
  k_threshold_clients :: "real option"
  probability_win_per_attempt :: "real option"
  assumptions :: "string list"
  rates :: "Rates option"
  cadence_analysis :: "CadenceAnalysis option"
  wait_estimates_minutes :: WaitEstimates
  recommendation :: Recommendation
  economics :: "Economics option"

text \<open>
  Two services of the JavaScript runtime are parameters of the model: \<^verbatim>\<open>Date.parse\<close>,
  which yields the milliseconds of a date-time string or \<open>None\<close> where JavaScript yields
  \<^verbatim>\<open>NaN\<close>, and the conversion of a number to the text that a template string embeds.
\<close>

record Runtime =
  date_parse :: "string \<Rightarrow> int option"
  number_text :: "real \<Rightarrow> string"

section \<open>Numeric helpers\<close>

definition EPSILON :: real where
  "EPSILON = 1 / 10 ^ 9"

definition clamp :: "real \<Rightarrow> real \<Rightarrow> real \<Rightarrow> real" where
  "clamp v low high = max low (min high v)"

text \<open>
  \<^verbatim>\<open>Math.round\<close> rounds to the nearest integer, a half towards plus infinity. The
  function \<^verbatim>\<open>round\<close> of the source is \<open>round_to\<close>, since HOL has a \<open>round\<close> of its own.
\<close>

definition math_round :: "real \<Rightarrow> real" where
  "math_round x = of_int \<lfloor>x + 1 / 2\<rfloor>"

definition round_to :: "real \<Rightarrow> nat \<Rightarrow> real" where
  "round_to v decimals = (let factor = 10 ^ decimals in math_round (v * factor) / factor)"

text \<open>The default of the second parameter of \<^verbatim>\<open>round\<close> is two decimals.\<close>

definition round2 :: "real \<Rightarrow> real" where
  "round2 v = round_to v 2"

definition mean :: "real list \<Rightarrow> error + real" where
  "mean values =
     (if length values > 0 then Inr (sum_list values / real (length values))
      else Inl (Error ''No se puede calcular promedio de lista vacia.''))"

definition sampleStd :: "real list \<Rightarrow> error + real" where
  "sampleStd values =
     (if length values < 2 then Inr 0
      else case mean values of
             Inl e \<Rightarrow> Inl e
           | Inr m \<Rightarrow>
               Inr (sqrt (sum_list (map (\<lambda>v. (v - m) ^ 2) values)
                          / (real (length values) - 1))))"

definition thresholdFromDay :: "bool \<Rightarrow> real" where
  "thresholdFromDay isWeekendOrHoliday = (if isWeekendOrHoliday then 50 else 25)"

definition uniformWaitStats :: "real \<Rightarrow> WaitEstimates" where
  "uniformWaitStats intervalMinutes =
     (let t = max intervalMinutes 0 in
      \<lparr> mean_interval_between_winners = round2 t,
        expected_wait_to_next_winner = round2 (0.5 * t),
        p50_wait_to_next_winner = round2 (0.5 * t),
        p75_wait_to_next_winner = round2 (0.75 * t),
        p90_wait_to_next_winner = round2 (0.9 * t) \<rparr>)"

definition expWaitStats :: "real \<Rightarrow> WaitEstimates" where
  "expWaitStats meanIntervalMinutes =
     (let m = max meanIntervalMinutes EPSILON in
      \<lparr> mean_interval_between_winners = round2 m,
        expected_wait_to_next_winner = round2 m,
        p50_wait_to_next_winner = round2 (- m * ln (1 - 0.5)),
        p75_wait_to_next_winner = round2 (- m * ln (1 - 0.75)),
        p90_wait_to_next_winner = round2 (- m * ln (1 - 0.9)) \<rparr>)"

definition probabilityWithinUniform :: "real \<Rightarrow> real \<Rightarrow> real" where
  "probabilityWithinUniform interval wait =
     (if interval \<le> 0 then 1 else clamp (wait / interval) 0 1)"

definition probabilityWithinExponential :: "real \<Rightarrow> real \<Rightarrow> real" where
  "probabilityWithinExponential meanInterval wait =
     (if meanInterval \<le> 0 then 1 else 1 - exp (- wait / meanInterval))"

section \<open>Economics overlay\<close>

definition breakEvenWait :: "real \<Rightarrow> real \<Rightarrow> real \<Rightarrow> real" where
  "breakEvenWait expectedBonusValue timeValuePerMinute maxWait =
     (if timeValuePerMinute = 0 then maxWait
      else clamp (expectedBonusValue / timeValuePerMinute) 0 maxWait)"

text \<open>
  \<^verbatim>\<open>withEconomics\<close> mutates its first argument; the model returns the updated output.
  The block that it stores once both guards have passed is \<open>economicsBlock\<close>.
\<close>

definition economicsBlock ::
  "real \<Rightarrow> real \<Rightarrow> real \<Rightarrow> real \<Rightarrow> real \<Rightarrow> real \<Rightarrow> Economics" where
  "economicsBlock wait expectedBonusValue timeValuePerMinute probabilityWithinWait
       meanInterval maxWait =
     (let expectedValue = probabilityWithinWait * expectedBonusValue;
          timeCost = wait * timeValuePerMinute;
          netValue = expectedValue - timeCost;
          valuePerMinute = expectedBonusValue / max meanInterval EPSILON
      in \<lparr> expected_value_for_optimal_wait = round2 expectedValue,
           expected_time_cost_for_optimal_wait = round2 timeCost,
           net_expected_value_for_optimal_wait = round2 netValue,
           value_expected_per_minute = round2 valuePerMinute,
           break_even_wait_minutes =
             round2 (breakEvenWait expectedBonusValue timeValuePerMinute maxWait),
           eco_rationale =
             [''EV(W) = P(evento en W) * valor_del_bono.'',
              ''Costo(W) = W * valor_tiempo_por_minuto.'',
              ''Si EV/min < costo/min, recorta espera o no esperes.''] \<rparr>)"

definition withEconomics ::
  "Output \<Rightarrow> real option \<Rightarrow> real option \<Rightarrow> real \<Rightarrow> real \<Rightarrow> real \<Rightarrow> Output" where
  "withEconomics output expectedBonusValue timeValuePerMinute probabilityWithinWait
       meanInterval maxWait =
     (case expectedBonusValue of
        None \<Rightarrow> output
      | Some bonus \<Rightarrow>
          if bonus < 0 then output
          else case timeValuePerMinute of
            None \<Rightarrow> output
          | Some tv \<Rightarrow>
              if tv < 0 then output
              else
                let wait = optimal_wait_minutes (recommendation output)
                in output \<lparr> economics := Some
                     (economicsBlock wait bonus tv probabilityWithinWait meanInterval
                        maxWait) \<rparr>)"

section \<open>Mode A: purchase rate\<close>

text \<open>
  The local constants of \<^verbatim>\<open>runPurchaseRateMode\<close> are definitions of their own, so that
  statements can name them; the body of the function below is built from them in the
  order of the source. The same holds for \<^verbatim>\<open>runWinnerTimestampsMode\<close> further down.
\<close>

definition maxWait_of :: "Inputs \<Rightarrow> real" where
  "maxWait_of inputs = max (case max_wait_minutes inputs of None \<Rightarrow> 30 | Some v \<Rightarrow> v) 1"

definition confidenceBuffer_of :: "Inputs \<Rightarrow> real" where
  "confidenceBuffer_of inputs =
     clamp (case confidence_buffer inputs of None \<Rightarrow> 0.2 | Some v \<Rightarrow> v) 0 0.9"

definition probabilityTarget_of :: "Inputs \<Rightarrow> real" where
  "probabilityTarget_of inputs =
     clamp (case target_hit_probability inputs of None \<Rightarrow> 0.75 | Some v \<Rightarrow> v) 0.5 0.99"

definition lambdaObserved :: "real \<Rightarrow> real \<Rightarrow> real" where
  "lambdaObserved observedPurchases observedMinutes = observedPurchases / observedMinutes"

definition laneScale :: "PurchaseModel \<Rightarrow> real option \<Rightarrow> real \<Rightarrow> real" where
  "laneScale m totalOpenLanes observedLanes =
     (if m = Global then
        (case totalOpenLanes of
           Some totalLanes \<Rightarrow> if totalLanes \<ge> observedLanes then totalLanes / observedLanes else 1
         | None \<Rightarrow> 1)
      else 1)"

definition lambdaEstimated :: "PurchaseModel \<Rightarrow> real \<Rightarrow> real \<Rightarrow> real \<Rightarrow> real" where
  "lambdaEstimated m lambdaObs scale observedLanes =
     (if m = Global then lambdaObs * scale else lambdaObs / observedLanes)"

definition lambdaConservative :: "real \<Rightarrow> real \<Rightarrow> real" where
  "lambdaConservative lambdaEst confidenceBuffer = lambdaEst * (1 - confidenceBuffer)"

definition meanIntervalA :: "real \<Rightarrow> real \<Rightarrow> real" where
  "meanIntervalA kThreshold lambdaCons = kThreshold / max lambdaCons EPSILON"

definition optimalWaitA :: "real \<Rightarrow> real \<Rightarrow> real \<Rightarrow> real" where
  "optimalWaitA meanInterval probabilityTarget maxWait =
     (let waitForTarget = meanInterval * probabilityTarget
      in clamp waitForTarget 1 maxWait)"

text \<open>
  The body of \<^verbatim>\<open>runPurchaseRateMode\<close> after its five assertions, on the values that the
  assertions have established.
\<close>

definition purchaseRateResult ::
  "Runtime \<Rightarrow> Inputs \<Rightarrow> bool \<Rightarrow> PurchaseModel \<Rightarrow> real \<Rightarrow> real \<Rightarrow> real \<Rightarrow> Output" where
  "purchaseRateResult rt inputs isWeekendOrHoliday m observedPurchases observedMinutes
       observedLanes =
     (let maxWait = maxWait_of inputs;
          confidenceBuffer = confidenceBuffer_of inputs;
          probabilityTarget = probabilityTarget_of inputs;
          kThreshold = thresholdFromDay isWeekendOrHoliday;
          lambdaObs = lambdaObserved observedPurchases observedMinutes;
          scale = laneScale m (total_open_lanes inputs) observedLanes;
          lambdaEst = lambdaEstimated m lambdaObs scale observedLanes;
          lambdaCons = lambdaConservative lambdaEst confidenceBuffer;
          meanInterval = meanIntervalA kThreshold lambdaCons;
          waitStats = uniformWaitStats meanInterval;
          optimalWait = optimalWaitA meanInterval probabilityTarget maxWait;
          probabilityWithinOptimal = probabilityWithinUniform meanInterval optimalWait;
          result =
            \<lparr> out_mode = Purchase_rate,
              k_threshold_clients = Some kThreshold,
              probability_win_per_attempt = Some (round_to (1 / kThreshold) 4),
              assumptions =
                [''El intervalo entre ganadores se estima con K/lambda.'',
                 ''Se usa buffer conservador para absorber variabilidad de cajas y tamano de carrito.'',
                 ''Llegada aleatoria al ciclo de K clientes => espera restante uniforme entre 0 e intervalo.''],
              rates = Some
                \<lparr> purchases_per_minute_observed = round2 lambdaObs,
                  purchases_per_minute_estimated = round2 lambdaEst,
                  purchases_per_minute_conservative = round2 lambdaCons,
                  lane_scale_factor = round2 scale \<rparr>,
              cadence_analysis = None,
              wait_estimates_minutes = waitStats,
              recommendation =
                \<lparr> optimal_wait_minutes = round2 optimalWait,
                  probability_next_winner_within_optimal_wait =
                    round_to probabilityWithinOptimal 4,
                  decision_rule =
                    ''Si no sale ganador en ese tiempo, re-mide 2 minutos y recalcula. Si vuelve a quedar alto, no sigas esperando.'',
                  rec_rationale =
                    [''K='' @ number_text rt kThreshold
                       @ '' clientes segun dia (25 entre semana, 50 fin de semana/festivo).'',
                     ''Tasa conservadora='' @ number_text rt (round2 lambdaCons)
                       @ '' compras/min.'',
                     ''Objetivo de captura='' @ number_text rt (round2 (probabilityTarget * 100))
                       @ ''%.''] \<rparr>,
              economics = None \<rparr>
      in withEconomics result (expected_bonus_value inputs) (time_value_per_minute inputs)
           probabilityWithinOptimal meanInterval maxWait)"

definition runPurchaseRateMode :: "Runtime \<Rightarrow> Inputs \<Rightarrow> error + Output" where
  "runPurchaseRateMode rt inputs =
     (case is_weekend_or_holiday inputs of
        None \<Rightarrow> Inl (Error ''is_weekend_or_holiday es obligatorio en mode=purchase_rate.'')
      | Some isWeekendOrHoliday \<Rightarrow>
     (case model inputs of
        None \<Rightarrow> Inl (Error ''model invalido.'')
      | Some m \<Rightarrow>
     (case observed_purchases inputs of
        None \<Rightarrow> Inl (Error ''observed_purchases debe ser > 0.'')
      | Some observedPurchases \<Rightarrow>
     if \<not> observedPurchases > 0 then Inl (Error ''observed_purchases debe ser > 0.'') else
     (case observed_minutes inputs of
        None \<Rightarrow> Inl (Error ''observed_minutes debe ser > 0.'')
      | Some observedMinutes \<Rightarrow>
     if \<not> observedMinutes > 0 then Inl (Error ''observed_minutes debe ser > 0.'') else
     (case observed_lanes inputs of
        None \<Rightarrow> Inl (Error ''observed_lanes debe ser > 0.'')
      | Some observedLanes \<Rightarrow>
     if \<not> observedLanes > 0 then Inl (Error ''observed_lanes debe ser > 0.'') else
     Inr (purchaseRateResult rt inputs isWeekendOrHoliday m observedPurchases
            observedMinutes observedLanes))))))"

section \<open>Mode B: winner timestamps\<close>

subsection \<open>Parsing a time of day\<close>

text \<open>
  \<^verbatim>\<open>HMS_RE\<close> is the regular expression \<^verbatim>\<open>/^(\d{1,2}):(\d{2})(?::(\d{2}))?$/\<close>; a match yields
  its three groups, the third one optional. A colon is no digit, so the groups of a match
  are determined by the leading run of digits.
\<close>

definition is_digit :: "char \<Rightarrow> bool" where
  "is_digit c = (c \<in> set ''0123456789'')"

definition HMS_RE :: "string \<Rightarrow> (string \<times> string \<times> string option) option" where
  "HMS_RE s =
     (let h = takeWhile is_digit s; r = dropWhile is_digit s in
      if length h = 1 \<or> length h = 2 then
        (case r of
           c # m1 # m2 # rest \<Rightarrow>
             if c = CHR '':'' \<and> is_digit m1 \<and> is_digit m2 then
               (case rest of
                  [] \<Rightarrow> Some (h, [m1, m2], None)
                | [c', s1, s2] \<Rightarrow>
                    if c' = CHR '':'' \<and> is_digit s1 \<and> is_digit s2
                    then Some (h, [m1, m2], Some [s1, s2]) else None
                | _ \<Rightarrow> None)
             else None
         | _ \<Rightarrow> None)
      else None)"

text \<open>\<^verbatim>\<open>Number\<close> on a string of decimal digits, which is all the groups hold.\<close>

definition Number :: "string \<Rightarrow> int" where
  "Number ds = foldl (\<lambda>acc c. 10 * acc + (of_char c - 48)) 0 ds"

text \<open>
  The \<^verbatim>\<open>Number.isNaN\<close> tests of the source never hold for a group of digits; the range
  tests remain.
\<close>

definition parseHmsToSeconds :: "string \<Rightarrow> int option" where
  "parseHmsToSeconds timestamp =
     (case HMS_RE timestamp of
        None \<Rightarrow> None
      | Some (g1, g2, g3) \<Rightarrow>
          let hour = Number g1;
              minute = Number g2;
              second = Number (case g3 of None \<Rightarrow> ''0'' | Some g \<Rightarrow> g)
          in if hour < 0 \<or> hour > 23 \<or> minute < 0 \<or> minute > 59 \<or> second < 0 \<or> second > 59
             then None
             else Some (hour * 3600 + minute * 60 + second))"

subsection \<open>The monotonic timeline\<close>

text \<open>The inner loop \<^verbatim>\<open>while (candidate <= current) candidate += 24 * 3600\<close>.\<close>

function advance :: "int \<Rightarrow> int \<Rightarrow> int" where
  "advance candidate current =
     (if candidate \<le> current then advance (candidate + 24 * 3600) current else candidate)"
  by pat_completeness auto
termination
  by (relation "measure (\<lambda>(candidate, current). nat (current - candidate + 1))") auto

text \<open>The outer loop over the samples after the first, with the running cursor.\<close>

fun rollover :: "int \<Rightarrow> int list \<Rightarrow> int list" where
  "rollover current [] = []"
| "rollover current (s # rest) =
     (let candidate = advance s current in candidate # rollover candidate rest)"

text \<open>
  The source reads the first sample without a test; the list is never empty there, since
  at least two timestamps are asserted before.
\<close>

fun absoluteSeconds :: "int list \<Rightarrow> int list" where
  "absoluteSeconds [] = []"
| "absoluteSeconds (first # rest) = first # rollover first rest"

text \<open>The loop that asserts \<^verbatim>\<open>parsed[i] > parsed[i - 1]\<close> for every index from one on.\<close>

fun ordered :: "int list \<Rightarrow> bool" where
  "ordered (a # b # rest) = (b > a \<and> ordered (b # rest))"
| "ordered _ = True"

definition parseTimestampsToMonotonicMinutes :: "Runtime \<Rightarrow> string list \<Rightarrow> error + real list" where
  "parseTimestampsToMonotonicMinutes rt timestamps =
     (if \<not> length timestamps \<ge> 2
      then Inl (Error ''Necesitas al menos 2 timestamps para estimar intervalos.'')
      else
        let hmsSeconds = map parseHmsToSeconds timestamps;
            allHms = list_all (\<lambda>v. v \<noteq> None) hmsSeconds
        in if allHms
           then Inr (map (\<lambda>seconds. real_of_int seconds / 60)
                      (absoluteSeconds (map the hmsSeconds)))
           else
             let parsed = map (date_parse rt) timestamps in
             if \<not> list_all (\<lambda>v. v \<noteq> None) parsed
             then Inl (Error ''Formato de timestamp invalido. Usa HH:MM[:SS] o ISO datetime.'')
             else if \<not> ordered (map the parsed)
             then Inl (Error ''Los timestamps ISO deben venir ordenados de menor a mayor.'')
             else Inr (map (\<lambda>v. real_of_int v / 60000) (map the parsed)))"

fun intervalsFromTimelineMinutes :: "real list \<Rightarrow> real list" where
  "intervalsFromTimelineMinutes (a # b # rest) =
     (b - a) # intervalsFromTimelineMinutes (b # rest)"
| "intervalsFromTimelineMinutes _ = []"

subsection \<open>Cadence, wait distribution and recommendation\<close>

definition elapsed_of :: "Inputs \<Rightarrow> real" where
  "elapsed_of inputs =
     max (case elapsed_since_last_winner_minutes inputs of None \<Rightarrow> 0 | Some v \<Rightarrow> v) 0"

definition intervalCv_of :: "real \<Rightarrow> real \<Rightarrow> real" where
  "intervalCv_of intervalStd intervalMean = intervalStd / max intervalMean EPSILON"

definition cadenceModel_of :: "real \<Rightarrow> CadenceModel" where
  "cadenceModel_of intervalCv =
     (if intervalCv < 0.4 then Regular else if intervalCv > 0.7 then Random else Mixed)"

definition regularRemaining_of :: "real \<Rightarrow> real \<Rightarrow> real" where
  "regularRemaining_of intervalMean elapsed = max (intervalMean - elapsed) 0"

definition waitStatsRegular_of :: "real \<Rightarrow> real \<Rightarrow> WaitEstimates" where
  "waitStatsRegular_of intervalMean regularRemaining =
     \<lparr> mean_interval_between_winners = round2 intervalMean,
       expected_wait_to_next_winner = round2 regularRemaining,
       p50_wait_to_next_winner = round2 regularRemaining,
       p75_wait_to_next_winner = round2 regularRemaining,
       p90_wait_to_next_winner = round2 regularRemaining \<rparr>"

definition waitStats_of :: "CadenceModel \<Rightarrow> real \<Rightarrow> real \<Rightarrow> WaitEstimates" where
  "waitStats_of cadenceModel intervalMean regularRemaining =
     (let randomExpectedRemaining = intervalMean;
          waitStatsRegular = waitStatsRegular_of intervalMean regularRemaining;
          waitStatsRandom = expWaitStats intervalMean
      in if cadenceModel = Random then waitStatsRandom
         else if cadenceModel = Mixed then
           \<lparr> mean_interval_between_winners = round2 intervalMean,
             expected_wait_to_next_winner =
               round2 ((expected_wait_to_next_winner waitStatsRegular
                        + randomExpectedRemaining) / 2),
             p50_wait_to_next_winner =
               round2 ((p50_wait_to_next_winner waitStatsRegular
                        + p50_wait_to_next_winner waitStatsRandom) / 2),
             p75_wait_to_next_winner =
               round2 ((p75_wait_to_next_winner waitStatsRegular
                        + p75_wait_to_next_winner waitStatsRandom) / 2),
             p90_wait_to_next_winner =
               round2 ((p90_wait_to_next_winner waitStatsRegular
                        + p90_wait_to_next_winner waitStatsRandom) / 2) \<rparr>
         else waitStatsRegular)"

definition randomWaitForTarget_of :: "real \<Rightarrow> real \<Rightarrow> real" where
  "randomWaitForTarget_of intervalMean probabilityTarget =
     - intervalMean * ln (1 - probabilityTarget)"

definition optimalWaitB :: "CadenceModel \<Rightarrow> real \<Rightarrow> real \<Rightarrow> real \<Rightarrow> real \<Rightarrow> real" where
  "optimalWaitB cadenceModel intervalMean regularRemaining probabilityTarget maxWait =
     (let randomWaitForTarget = randomWaitForTarget_of intervalMean probabilityTarget;
          mixedWaitForTarget = (regularRemaining + randomWaitForTarget) / 2;
          optimalWait =
            (if cadenceModel = Random then randomWaitForTarget
             else if cadenceModel = Mixed then mixedWaitForTarget
             else regularRemaining)
      in clamp optimalWait 0 maxWait)"

definition regularProbability_of :: "real \<Rightarrow> real \<Rightarrow> real" where
  "regularProbability_of regularRemaining optimalWait =
     (if regularRemaining \<le> EPSILON then 1
      else clamp (optimalWait / max regularRemaining EPSILON) 0 1)"

definition probabilityWithinOptimalB :: "CadenceModel \<Rightarrow> real \<Rightarrow> real \<Rightarrow> real \<Rightarrow> real" where
  "probabilityWithinOptimalB cadenceModel intervalMean regularRemaining optimalWait =
     (let regularProbability = regularProbability_of regularRemaining optimalWait;
          randomProbability = probabilityWithinExponential intervalMean optimalWait
      in if cadenceModel = Random then randomProbability
         else if cadenceModel = Mixed then (regularProbability + randomProbability) / 2
         else regularProbability)"

text \<open>
  The body of \<^verbatim>\<open>runWinnerTimestampsMode\<close> from the cadence classification on, given the
  intervals with their mean and standard deviation.
\<close>

definition winnerTimestampsResult ::
  "Runtime \<Rightarrow> Inputs \<Rightarrow> real list \<Rightarrow> real \<Rightarrow> real \<Rightarrow> Output" where
  "winnerTimestampsResult rt inputs intervals intervalMean intervalStd =
     (let maxWait = maxWait_of inputs;
          probabilityTarget = probabilityTarget_of inputs;
          elapsed = elapsed_of inputs;
          intervalCv = intervalCv_of intervalStd intervalMean;
          cadenceModel = cadenceModel_of intervalCv;
          regularRemaining = regularRemaining_of intervalMean elapsed;
          waitStats = waitStats_of cadenceModel intervalMean regularRemaining;
          optimalWait =
            optimalWaitB cadenceModel intervalMean regularRemaining probabilityTarget maxWait;
          probabilityWithinOptimal =
            probabilityWithinOptimalB cadenceModel intervalMean regularRemaining optimalWait;
          result =
            \<lparr> out_mode = Winner_timestamps,
              k_threshold_clients = None,
              probability_win_per_attempt = None,
              assumptions =
                [''Se estima cadencia solo con intervalos entre anuncios de ganadores.'',
                 ''CV<0.4 sugiere comportamiento casi regular; CV>0.7 sugiere comportamiento aleatorio.'',
                 ''En cadencia aleatoria se usa modelo exponencial para P(ganador en W minutos).''],
              rates = None,
              cadence_analysis = Some
                \<lparr> intervals_minutes = map round2 intervals,
                  interval_mean_minutes = round2 intervalMean,
                  interval_std_minutes = round2 intervalStd,
                  interval_cv = round2 intervalCv,
                  cadence_model = cadenceModel \<rparr>,
              wait_estimates_minutes = waitStats,
              recommendation =
                \<lparr> optimal_wait_minutes = round2 optimalWait,
                  probability_next_winner_within_optimal_wait =
                    round_to probabilityWithinOptimal 4,
                  decision_rule =
                    ''Si no escuchas ganador en ese tiempo, captura 2-3 timestamps adicionales y recalcula.'',
                  rec_rationale =
                    [''Intervalo promedio observado='' @ number_text rt (round2 intervalMean)
                       @ '' min.'',
                     ''CV='' @ number_text rt (round2 intervalCv) @ '' (''
                       @ (case cadenceModel of Regular \<Rightarrow> ''regular''
                            | Mixed \<Rightarrow> ''mixed'' | Random \<Rightarrow> ''random'') @ '').'',
                     ''Probabilidad objetivo='' @ number_text rt (round2 (probabilityTarget * 100))
                       @ ''%.''] \<rparr>,
              economics = None \<rparr>;
          result' =
            (case is_weekend_or_holiday inputs of
               None \<Rightarrow> result
             | Some isWeekendOrHoliday \<Rightarrow>
                 let kThreshold = thresholdFromDay isWeekendOrHoliday
                 in result \<lparr> k_threshold_clients := Some kThreshold,
                             probability_win_per_attempt :=
                               Some (round_to (1 / kThreshold) 4) \<rparr>)
      in withEconomics result' (expected_bonus_value inputs) (time_value_per_minute inputs)
           probabilityWithinOptimal intervalMean maxWait)"

definition runWinnerTimestampsMode :: "Runtime \<Rightarrow> Inputs \<Rightarrow> error + Output" where
  "runWinnerTimestampsMode rt inputs =
     (case winner_timestamps inputs of
        None \<Rightarrow> Inl (Error
          ''winner_timestamps debe tener al menos 2 elementos en mode=winner_timestamps.'')
      | Some winnerTimestamps \<Rightarrow>
     if \<not> length winnerTimestamps \<ge> 2 then Inl (Error
          ''winner_timestamps debe tener al menos 2 elementos en mode=winner_timestamps.'')
     else
     (case parseTimestampsToMonotonicMinutes rt winnerTimestamps of
        Inl e \<Rightarrow> Inl e
      | Inr timeline \<Rightarrow>
     (let intervals = intervalsFromTimelineMinutes timeline
      in case mean intervals of
        Inl e \<Rightarrow> Inl e
      | Inr intervalMean \<Rightarrow>
     (case sampleStd intervals of
        Inl e \<Rightarrow> Inl e
      | Inr intervalStd \<Rightarrow>
     Inr (winnerTimestampsResult rt inputs intervals intervalMean intervalStd)))))"

section \<open>Entry point\<close>

text \<open>
  \<^verbatim>\<open>run\<close> is asynchronous; a rejected promise is the error summand. The text of a mode
  that is none of the two is kept in \<open>Other_mode\<close>.
\<close>

definition run :: "Runtime \<Rightarrow> Inputs \<Rightarrow> error + Output" where
  "run rt inputs =
     (case mode inputs of
        Purchase_rate \<Rightarrow> runPurchaseRateMode rt inputs
      | Winner_timestamps \<Rightarrow> runWinnerTimestampsMode rt inputs
      | Other_mode text \<Rightarrow> Inl (Error (''mode invalido: '' @ text)))"

section \<open>Derived quantities and example inputs\<close>

text \<open>
  The economics block that a run attaches, as a function of the inputs and of the three
  values that the mode hands to \<^verbatim>\<open>withEconomics\<close>: the reported wait, the probability
  within that wait and the mean interval.
\<close>

definition economics_of :: "Inputs \<Rightarrow> real \<Rightarrow> real \<Rightarrow> real \<Rightarrow> Economics option" where
  "economics_of inputs wait q mi =
     (case expected_bonus_value inputs of None \<Rightarrow> None
      | Some bonus \<Rightarrow> if bonus < 0 then None
          else case time_value_per_minute inputs of None \<Rightarrow> None
            | Some tv \<Rightarrow> if tv < 0 then None
                else Some (economicsBlock wait bonus tv q mi (maxWait_of inputs)))"

text \<open>
  The mean interval \<open>T\<close> between winners that \<^verbatim>\<open>runPurchaseRateMode\<close> derives from inputs
  that pass its assertions; it is used on such inputs only.
\<close>

definition meanIntervalA_of :: "Inputs \<Rightarrow> real" where
  "meanIntervalA_of inputs =
     (let m = the (model inputs);
          observedLanes = the (observed_lanes inputs);
          lambdaObs = lambdaObserved (the (observed_purchases inputs))
                        (the (observed_minutes inputs));
          scale = laneScale m (total_open_lanes inputs) observedLanes;
          lambdaEst = lambdaEstimated m lambdaObs scale observedLanes;
          lambdaCons = lambdaConservative lambdaEst (confidenceBuffer_of inputs)
      in meanIntervalA (thresholdFromDay (the (is_weekend_or_holiday inputs))) lambdaCons)"

text \<open>
  Two runtimes for closed examples. In the first no string is a date-time; examples with
  bare times of day never reach \<^verbatim>\<open>Date.parse\<close>. The second knows two ISO date-times, noon
  and five past noon (UTC) of the first of January 2024, in milliseconds since the epoch.
  Both print every number as the empty text.
\<close>

definition example_runtime :: Runtime where
  "example_runtime = \<lparr> date_parse = (\<lambda>s. None), number_text = (\<lambda>x. []) \<rparr>"

definition iso_runtime :: Runtime where
  "iso_runtime =
     \<lparr> date_parse = (\<lambda>s. if s = ''2024-01-01T12:00:00Z'' then Some 1704110400000
                         else if s = ''2024-01-01T12:05:00Z'' then Some 1704110700000
                         else None),
       number_text = (\<lambda>x. []) \<rparr>"

text \<open>
  Scenario 1 of the documentation (purchase rate, weekend, 5 of 15 lanes observed) and
  variants of it: a target with five decimals, the per-lane model, and money values.
\<close>

definition scenario1 :: Inputs where
  "scenario1 =
     \<lparr> mode = Purchase_rate,
       is_weekend_or_holiday = Some True,
       model = Some Global,
       observed_purchases = Some 5,
       observed_minutes = Some 2,
       observed_lanes = Some 5,
       total_open_lanes = Some 15,
       winner_timestamps = None,
       elapsed_since_last_winner_minutes = None,
       target_hit_probability = Some 0.75,
       confidence_buffer = Some 0.2,
       max_wait_minutes = Some 30,
       time_value_per_minute = None,
       expected_bonus_value = None \<rparr>"




text \<open>One purchase in two minutes on the only lane, with a maximum wait of 7.456 minutes.\<close>

definition slow_lane_example :: Inputs where
  "slow_lane_example =
     \<lparr> mode = Purchase_rate,
       is_weekend_or_holiday = Some True,
       model = Some Global,
       observed_purchases = Some 1,
       observed_minutes = Some 2,
       observed_lanes = Some 1,
       total_open_lanes = None,
       winner_timestamps = None,
       elapsed_since_last_winner_minutes = None,
       target_hit_probability = None,
       confidence_buffer = None,
       max_wait_minutes = Some 7.456,
       time_value_per_minute = None,
       expected_bonus_value = None \<rparr>"

text \<open>
  Winner timestamps with everything else left to its default, and three cadences built
  on them: equal intervals, intervals of 301, 601 and 901 seconds, and intervals of 2, 10
  and 18 minutes.
\<close>

definition timestamps_example :: "string list \<Rightarrow> Inputs" where
  "timestamps_example ts =
     \<lparr> mode = Winner_timestamps,
       is_weekend_or_holiday = None,
       model = None,
       observed_purchases = None,
       observed_minutes = None,
       observed_lanes = None,
       total_open_lanes = None,
       winner_timestamps = Some ts,
       elapsed_since_last_winner_minutes = None,
       target_hit_probability = None,
       confidence_buffer = None,
       max_wait_minutes = None,
       time_value_per_minute = None,
       expected_bonus_value = None \<rparr>"

definition regular_example :: Inputs where
  "regular_example =
     (timestamps_example [''10:00'', ''10:10'', ''10:20''])
       \<lparr> elapsed_since_last_winner_minutes := Some 6 \<rparr>"

definition mixed_example :: Inputs where
  "mixed_example =
     (timestamps_example [''10:00:00'', ''10:05:01'', ''10:15:02'', ''10:30:03''])
       \<lparr> elapsed_since_last_winner_minutes := Some 0.01, max_wait_minutes := Some 4 \<rparr>"

definition random_example :: Inputs where
  "random_example = timestamps_example [''10:00'', ''10:02'', ''10:12'', ''10:30'']"

text \<open>Two bare times around midnight.\<close>

definition midnight_example :: Inputs where
  "midnight_example = timestamps_example [''23:58'', ''00:05'']"

text \<open>A bare time next to a date-time, and two date-times in both orders.\<close>

definition mixed_format_example :: Inputs where
  "mixed_format_example = timestamps_example [''12:00'', ''2024-01-01T12:05:00Z'']"

definition unordered_dates_example :: Inputs where
  "unordered_dates_example =
     timestamps_example [''2024-01-01T12:05:00Z'', ''2024-01-01T12:00:00Z'']"

definition ordered_dates_example :: Inputs where
  "ordered_dates_example =
     timestamps_example [''2024-01-01T12:00:00Z'', ''2024-01-01T12:05:00Z'']"

section \<open>Auxiliary facts\<close>

subsection \<open>Rounding and clamping\<close>

lemmas num_defs = EPSILON_def clamp_def math_round_def round_to_def round2_def

lemma EPSILON_pos: "0 < EPSILON"
  by (simp add: EPSILON_def)

lemma round_to_nonneg: "0 \<le> v \<Longrightarrow> 0 \<le> round_to v d"
  by (simp add: round_to_def math_round_def Let_def)

lemma round_to_mono: "v \<le> w \<Longrightarrow> round_to v d \<le> round_to w d"
  unfolding round_to_def math_round_def Let_def
  by (intro divide_right_mono of_int_le_iff[THEN iffD2] floor_mono add_right_mono
      mult_right_mono) simp_all

lemma round_to_fixed: "round_to (of_int k / 10 ^ d) d = of_int k / 10 ^ d"
proof -
  have "\<lfloor>(of_int k :: real) + 1 / 2\<rfloor> = k" by linarith
  then show ?thesis by (simp add: round_to_def math_round_def Let_def)
qed

lemma round_to_one: "round_to 1 d = 1"
proof -
  have "round_to (of_int (10 ^ d) / 10 ^ d) d = of_int (10 ^ d) / 10 ^ d"
    by (rule round_to_fixed)
  then show ?thesis by simp
qed

lemma round_to_ge_one: "1 \<le> v \<Longrightarrow> 1 \<le> round_to v d"
  using round_to_mono[of 1 v d] by (simp add: round_to_one)

lemma clamp_bounds: "low \<le> high \<Longrightarrow> low \<le> clamp v low high \<and> clamp v low high \<le> high"
  by (simp add: clamp_def)

lemma uniformWaitStats_nonneg:
  "0 \<le> mean_interval_between_winners (uniformWaitStats t)"
  "0 \<le> expected_wait_to_next_winner (uniformWaitStats t)"
  "0 \<le> p50_wait_to_next_winner (uniformWaitStats t)"
  "0 \<le> p75_wait_to_next_winner (uniformWaitStats t)"
  "0 \<le> p90_wait_to_next_winner (uniformWaitStats t)"
  by (simp_all add: uniformWaitStats_def Let_def round2_def round_to_nonneg)

lemma expWaitStats_nonneg:
  "0 \<le> mean_interval_between_winners (expWaitStats t)"
  "0 \<le> expected_wait_to_next_winner (expWaitStats t)"
  "0 \<le> p50_wait_to_next_winner (expWaitStats t)"
  "0 \<le> p75_wait_to_next_winner (expWaitStats t)"
  "0 \<le> p90_wait_to_next_winner (expWaitStats t)"
proof -
  have m: "0 \<le> max t EPSILON" using EPSILON_pos by (simp add: max_def)
  have l: "\<And>q::real. 0 < q \<Longrightarrow> q < 1 \<Longrightarrow> 0 \<le> - max t EPSILON * ln q"
    using m by (simp add: mult_nonneg_nonpos2 mult_nonneg_nonpos)
  show "0 \<le> mean_interval_between_winners (expWaitStats t)"
    "0 \<le> expected_wait_to_next_winner (expWaitStats t)"
    using m by (simp_all add: expWaitStats_def Let_def round2_def round_to_nonneg)
  show "0 \<le> p50_wait_to_next_winner (expWaitStats t)"
    using l[of "1 - 0.5"] by (simp add: expWaitStats_def Let_def round2_def round_to_nonneg)
  show "0 \<le> p75_wait_to_next_winner (expWaitStats t)"
    using l[of "1 - 0.75"] by (simp add: expWaitStats_def Let_def round2_def round_to_nonneg)
  show "0 \<le> p90_wait_to_next_winner (expWaitStats t)"
    using l[of "1 - 0.9"] by (simp add: expWaitStats_def Let_def round2_def round_to_nonneg)
qed

lemma waitStats_of_nonneg:
  assumes "0 \<le> mu" "0 \<le> R"
  shows "0 \<le> mean_interval_between_winners (waitStats_of c mu R)"
    "0 \<le> expected_wait_to_next_winner (waitStats_of c mu R)"
    "0 \<le> p50_wait_to_next_winner (waitStats_of c mu R)"
    "0 \<le> p75_wait_to_next_winner (waitStats_of c mu R)"
    "0 \<le> p90_wait_to_next_winner (waitStats_of c mu R)"
proof -
  have reg: "0 \<le> round2 R" "0 \<le> round2 mu"
    using assms by (simp_all add: round2_def round_to_nonneg)
  note ex = expWaitStats_nonneg[of mu]
  have h: "0 \<le> round2 ((a + b) / 2)" if "0 \<le> a" "0 \<le> b" for a b :: real
    using that by (simp add: round2_def round_to_nonneg)
  show "0 \<le> mean_interval_between_winners (waitStats_of c mu R)"
    using reg ex(1) by (cases c) (simp_all add: waitStats_of_def waitStatsRegular_of_def Let_def)
  show "0 \<le> expected_wait_to_next_winner (waitStats_of c mu R)"
    using reg ex(2) h[OF reg(1) assms(1)]
    by (cases c) (simp_all add: waitStats_of_def waitStatsRegular_of_def Let_def)
  show "0 \<le> p50_wait_to_next_winner (waitStats_of c mu R)"
    using reg ex(3) h[OF reg(1) ex(3)]
    by (cases c) (simp_all add: waitStats_of_def waitStatsRegular_of_def Let_def)
  show "0 \<le> p75_wait_to_next_winner (waitStats_of c mu R)"
    using reg ex(4) h[OF reg(1) ex(4)]
    by (cases c) (simp_all add: waitStats_of_def waitStatsRegular_of_def Let_def)
  show "0 \<le> p90_wait_to_next_winner (waitStats_of c mu R)"
    using reg ex(5) h[OF reg(1) ex(5)]
    by (cases c) (simp_all add: waitStats_of_def waitStatsRegular_of_def Let_def)
qed

lemma sqrt_25: "sqrt 25 = 5" and sqrt_64: "sqrt 64 = 8"
  by (rule real_sqrt_unique; simp)+

subsection \<open>The economics overlay\<close>

lemma withEconomics_keeps [simp]:
  "recommendation (withEconomics out b t q mi mw) = recommendation out"
  "wait_estimates_minutes (withEconomics out b t q mi mw) = wait_estimates_minutes out"
  "rates (withEconomics out b t q mi mw) = rates out"
  "cadence_analysis (withEconomics out b t q mi mw) = cadence_analysis out"
  "k_threshold_clients (withEconomics out b t q mi mw) = k_threshold_clients out"
  "probability_win_per_attempt (withEconomics out b t q mi mw) = probability_win_per_attempt out"
  "out_mode (withEconomics out b t q mi mw) = out_mode out"
  by (simp_all add: withEconomics_def Let_def split: option.splits)

lemma withEconomics_economics:
  "economics out = None \<Longrightarrow>
   economics (withEconomics out b t q mi mw) =
     (case b of None \<Rightarrow> None
      | Some bonus \<Rightarrow> if bonus < 0 then None
          else case t of None \<Rightarrow> None
            | Some tv \<Rightarrow> if tv < 0 then None
                else Some (economicsBlock (optimal_wait_minutes (recommendation out))
                       bonus tv q mi mw))"
  by (simp add: withEconomics_def Let_def split: option.splits)



subsection \<open>The purchase-rate mode\<close>

lemma maxWait_of_ge_one: "1 \<le> maxWait_of inputs"
  by (simp add: maxWait_of_def)




lemma purchaseRateResult_fields:
  assumes sc: "scale = laneScale m (total_open_lanes inputs) l"
    and le: "lambdaEst = lambdaEstimated m (lambdaObserved p mi) scale l"
    and lc: "lambdaCons = lambdaConservative lambdaEst (confidenceBuffer_of inputs)"
    and T: "T = meanIntervalA (thresholdFromDay w) lambdaCons"
    and W: "W = optimalWaitA T (probabilityTarget_of inputs) (maxWait_of inputs)"
    and out: "out = purchaseRateResult rt inputs w m p mi l"
  shows "out_mode out = Purchase_rate"
    "k_threshold_clients out = Some (thresholdFromDay w)"
    "probability_win_per_attempt out = Some (round_to (1 / thresholdFromDay w) 4)"
    "rates out = Some \<lparr> purchases_per_minute_observed = round2 (lambdaObserved p mi),
                  purchases_per_minute_estimated = round2 lambdaEst,
                  purchases_per_minute_conservative = round2 lambdaCons,
                  lane_scale_factor = round2 scale \<rparr>"
    "cadence_analysis out = None"
    "wait_estimates_minutes out = uniformWaitStats T"
    "optimal_wait_minutes (recommendation out) = round2 W"
    "probability_next_winner_within_optimal_wait (recommendation out)
           = round_to (probabilityWithinUniform T W) 4"
    "economics out = economics_of inputs (round2 W) (probabilityWithinUniform T W) T"
  unfolding sc le lc T W out
  by (simp_all add: purchaseRateResult_def Let_def withEconomics_economics economics_of_def
      split: option.splits)

lemma runPurchaseRateMode_valid:
  assumes "is_weekend_or_holiday inputs = Some w" "model inputs = Some m"
    "observed_purchases inputs = Some p" "p > 0"
    "observed_minutes inputs = Some mi" "mi > 0"
    "observed_lanes inputs = Some l" "l > 0"
  shows "runPurchaseRateMode rt inputs = Inr (purchaseRateResult rt inputs w m p mi l)"
  using assms by (simp add: runPurchaseRateMode_def)

lemma runPurchaseRateMode_InrD:
  assumes "runPurchaseRateMode rt inputs = Inr out"
  shows "\<exists>w m p mi l. is_weekend_or_holiday inputs = Some w \<and> model inputs = Some m
     \<and> observed_purchases inputs = Some p \<and> p > 0
     \<and> observed_minutes inputs = Some mi \<and> mi > 0
     \<and> observed_lanes inputs = Some l \<and> l > 0
     \<and> out = purchaseRateResult rt inputs w m p mi l"
  using assms
  by (auto simp add: runPurchaseRateMode_def split: option.splits if_splits)

lemma run_purchase_rate_InrD:
  assumes "run rt inputs = Inr out" "mode inputs = Purchase_rate"
  shows "\<exists>w m p mi l. is_weekend_or_holiday inputs = Some w \<and> model inputs = Some m
     \<and> observed_purchases inputs = Some p \<and> p > 0
     \<and> observed_minutes inputs = Some mi \<and> mi > 0
     \<and> observed_lanes inputs = Some l \<and> l > 0
     \<and> out = purchaseRateResult rt inputs w m p mi l
     \<and> meanIntervalA_of inputs = meanIntervalA (thresholdFromDay w)
           (lambdaConservative (lambdaEstimated m (lambdaObserved p mi)
              (laneScale m (total_open_lanes inputs) l) l) (confidenceBuffer_of inputs))"
proof -
  from assms have "runPurchaseRateMode rt inputs = Inr out" by (simp add: run_def)
  from runPurchaseRateMode_InrD[OF this] show ?thesis
    by (auto simp add: meanIntervalA_of_def Let_def)
qed

lemma run_purchase_rate_fields:
  assumes "run rt inputs = Inr out" "mode inputs = Purchase_rate"
    and T: "T = meanIntervalA_of inputs"
    and W: "W = optimalWaitA T (probabilityTarget_of inputs) (maxWait_of inputs)"
  shows "wait_estimates_minutes out = uniformWaitStats T"
    "optimal_wait_minutes (recommendation out) = round2 W"
    "probability_next_winner_within_optimal_wait (recommendation out)
           = round_to (probabilityWithinUniform T W) 4"
    "economics out = economics_of inputs (round2 W) (probabilityWithinUniform T W) T"
proof -
  from run_purchase_rate_InrD[OF assms(1,2)]
  obtain w m p mi l where out: "out = purchaseRateResult rt inputs w m p mi l"
    and mi: "meanIntervalA_of inputs = meanIntervalA (thresholdFromDay w)
           (lambdaConservative (lambdaEstimated m (lambdaObserved p mi)
              (laneScale m (total_open_lanes inputs) l) l) (confidenceBuffer_of inputs))"
    by blast
  note f = purchaseRateResult_fields[OF refl refl refl refl refl out, folded mi]
  show "wait_estimates_minutes out = uniformWaitStats T"
    "optimal_wait_minutes (recommendation out) = round2 W"
    "probability_next_winner_within_optimal_wait (recommendation out)
           = round_to (probabilityWithinUniform T W) 4"
    "economics out = economics_of inputs (round2 W) (probabilityWithinUniform T W) T"
    unfolding T W by (rule f)+
qed

subsection \<open>The timeline\<close>

declare advance.simps [simp del]

lemma advance_props:
  "\<exists>k::nat. advance c cur = c + 86400 * int k \<and> cur < advance c cur
     \<and> (\<forall>j<k. c + 86400 * int j \<le> cur)"
proof (induction c cur rule: advance.induct)
  case (1 candidate current)
  show ?case
  proof (cases "candidate \<le> current")
    case True
    from 1[OF True] obtain k where
      k: "advance (candidate + 24 * 3600) current = candidate + 24 * 3600 + 86400 * int k"
      "current < advance (candidate + 24 * 3600) current"
      "\<forall>j<k. candidate + 24 * 3600 + 86400 * int j \<le> current"
      by blast
    have a: "advance candidate current = advance (candidate + 24 * 3600) current"
      using True by (subst advance.simps) simp
    have "\<forall>j<Suc k. candidate + 86400 * int j \<le> current"
    proof (intro allI impI)
      fix j assume "j < Suc k"
      show "candidate + 86400 * int j \<le> current"
      proof (cases j)
        case 0
        then show ?thesis using True by simp
      next
        case (Suc j')
        then have "j' < k" using \<open>j < Suc k\<close> by simp
        then show ?thesis using k(3) Suc by (simp add: algebra_simps)
      qed
    qed
    moreover have "advance candidate current = candidate + 86400 * int (Suc k)"
      using a k(1) by simp
    moreover have "current < advance candidate current" using a k(2) by simp
    ultimately show ?thesis by blast
  next
    case False
    then have "advance candidate current = candidate"
      by (subst advance.simps) simp
    then have "advance candidate current = candidate + 86400 * int 0
       \<and> current < advance candidate current
       \<and> (\<forall>j<(0::nat). candidate + 86400 * int j \<le> current)"
      using False by simp
    then show ?thesis by blast
  qed
qed

lemma advance_greater: "cur < advance c cur"
  using advance_props[of c cur] by blast

lemma length_rollover [simp]: "length (rollover cur ss) = length ss"
  by (induction ss arbitrary: cur) (simp_all add: Let_def)

lemma rollover_sorted: "sorted_wrt (<) (cur # rollover cur ss)"
proof (induction ss arbitrary: cur)
  case Nil
  show ?case by simp
next
  case (Cons s ss)
  have "sorted_wrt (<) (advance s cur # rollover (advance s cur) ss)" by (rule Cons.IH)
  moreover have "cur < advance s cur" by (rule advance_greater)
  ultimately show ?case by (auto simp add: Let_def)
qed

lemma rollover_nth:
  "i < length ss \<Longrightarrow>
   \<exists>k::nat. rollover cur ss ! i = ss ! i + 86400 * int k
     \<and> (cur # rollover cur ss) ! i < rollover cur ss ! i
     \<and> (\<forall>j<k. ss ! i + 86400 * int j \<le> (cur # rollover cur ss) ! i)"
proof (induction ss arbitrary: cur i)
  case Nil
  then show ?case by simp
next
  case (Cons s ss)
  show ?case
  proof (cases i)
    case 0
    then show ?thesis using advance_props[of s cur] by (simp add: Let_def)
  next
    case (Suc i')
    then have "i' < length ss" using Cons.prems by simp
    from Cons.IH[OF this, of "advance s cur"] show ?thesis
      using Suc by (simp add: Let_def)
  qed
qed

lemma length_absoluteSeconds [simp]: "length (absoluteSeconds ss) = length ss"
  by (cases ss) simp_all

lemma absoluteSeconds_sorted: "sorted_wrt (<) (absoluteSeconds ss)"
proof (cases ss)
  case Nil
  then show ?thesis by simp
next
  case (Cons first rest)
  then show ?thesis using rollover_sorted[of first rest] by simp
qed

lemma absoluteSeconds_nth:
  assumes "0 < i" "i < length ss"
  shows "\<exists>k::nat. absoluteSeconds ss ! i = ss ! i + 86400 * int k
     \<and> absoluteSeconds ss ! (i - 1) < absoluteSeconds ss ! i
     \<and> (\<forall>j<k. ss ! i + 86400 * int j \<le> absoluteSeconds ss ! (i - 1))"
proof (cases ss)
  case Nil
  then show ?thesis using assms by simp
next
  case (Cons first rest)
  from assms obtain i' where i: "i = Suc i'" by (cases i) simp_all
  then have "i' < length rest" using assms Cons by simp
  from rollover_nth[OF this, of first] show ?thesis
    unfolding Cons i by simp
qed

lemma absoluteSeconds_first: "ss \<noteq> [] \<Longrightarrow> absoluteSeconds ss ! 0 = ss ! 0"
  by (cases ss) simp_all

lemma sorted_scaled:
  assumes "sorted_wrt (<) xs" "0 < c"
  shows "sorted_wrt (<) (map (\<lambda>v. real_of_int v / c) xs)"
proof -
  have "sorted_wrt (\<lambda>x y. real_of_int x / c < real_of_int y / c) xs"
    using assms(1)
    by (rule sorted_wrt_mono_rel[rotated]) (simp add: divide_strict_right_mono assms(2))
  then show ?thesis by (simp add: sorted_wrt_map)
qed

lemma ordered_sorted: "ordered xs \<Longrightarrow> sorted_wrt (<) xs"
  by (induction xs rule: ordered.induct) auto

lemma sorted_ordered: "sorted_wrt (<) xs \<Longrightarrow> ordered xs"
  by (induction xs rule: ordered.induct) auto

lemma timeline_sorted:
  assumes "parseTimestampsToMonotonicMinutes rt ts = Inr tml"
  shows "sorted_wrt (<) tml \<and> length tml = length ts \<and> 2 \<le> length ts"
proof (cases "list_all (\<lambda>v. v \<noteq> None) (map parseHmsToSeconds ts)")
  case True
  with assms have tml: "tml = map (\<lambda>seconds. real_of_int seconds / 60)
       (absoluteSeconds (map the (map parseHmsToSeconds ts)))" and l: "2 \<le> length ts"
    by (simp_all add: parseTimestampsToMonotonicMinutes_def Let_def split: if_splits)
  have "sorted_wrt (<) tml"
    unfolding tml by (rule sorted_scaled[OF absoluteSeconds_sorted]) simp
  then show ?thesis using l by (simp add: tml)
next
  case False
  with assms have tml: "tml = map (\<lambda>v. real_of_int v / 60000) (map the (map (date_parse rt) ts))"
    and o: "ordered (map the (map (date_parse rt) ts))" and l: "2 \<le> length ts"
    by (simp_all add: parseTimestampsToMonotonicMinutes_def Let_def split: if_splits)
  have "sorted_wrt (<) tml"
    unfolding tml by (rule sorted_scaled[OF ordered_sorted[OF o]]) simp
  then show ?thesis using l by (simp add: tml)
qed

lemma parse_all_bare:
  assumes "2 \<le> length ts" "\<forall>t\<in>set ts. parseHmsToSeconds t \<noteq> None"
  shows "parseTimestampsToMonotonicMinutes rt ts
     = Inr (map (\<lambda>seconds. real_of_int seconds / 60)
         (absoluteSeconds (map (the \<circ> parseHmsToSeconds) ts)))"
  using assms
  by (simp add: parseTimestampsToMonotonicMinutes_def Let_def list_all_iff)

lemma parse_not_all_bare:
  assumes "\<exists>t\<in>set ts. parseHmsToSeconds t = None"
  shows "parseTimestampsToMonotonicMinutes rt ts =
     (if \<not> 2 \<le> length ts
      then Inl (Error ''Necesitas al menos 2 timestamps para estimar intervalos.'')
      else if \<not> (\<forall>t\<in>set ts. date_parse rt t \<noteq> None)
      then Inl (Error ''Formato de timestamp invalido. Usa HH:MM[:SS] o ISO datetime.'')
      else if \<not> sorted_wrt (<) (map (the \<circ> date_parse rt) ts)
      then Inl (Error ''Los timestamps ISO deben venir ordenados de menor a mayor.'')
      else Inr (map (\<lambda>v. real_of_int v / 60000) (map (the \<circ> date_parse rt) ts)))"
proof -
  have o: "ordered xs = sorted_wrt (<) xs" for xs
    using ordered_sorted sorted_ordered by blast
  have na: "list_all (\<lambda>v. v \<noteq> None) (map parseHmsToSeconds ts) = False"
    using assms by (auto simp add: list_all_iff)
  have la: "list_all (\<lambda>v. v \<noteq> None) (map (date_parse rt) ts)
      = (\<forall>t\<in>set ts. date_parse rt t \<noteq> None)"
    by (simp add: list_all_iff)
  have mm: "map the (map (date_parse rt) ts) = map (the \<circ> date_parse rt) ts"
    by simp
  show ?thesis
    by (simp only: parseTimestampsToMonotonicMinutes_def Let_def na la mm o if_False)
qed

lemma length_intervals [simp]:
  "length (intervalsFromTimelineMinutes tml) = length tml - 1"
  by (induction tml rule: intervalsFromTimelineMinutes.induct) simp_all

lemma intervals_pos:
  "sorted_wrt (<) tml \<Longrightarrow> \<forall>d \<in> set (intervalsFromTimelineMinutes tml). 0 < d"
  by (induction tml rule: intervalsFromTimelineMinutes.induct) auto

lemma sum_list_pos_real:
  fixes ds :: "real list"
  shows "ds \<noteq> [] \<Longrightarrow> \<forall>d \<in> set ds. 0 < d \<Longrightarrow> 0 < sum_list ds"
proof (induction ds)
  case Nil
  then show ?case by simp
next
  case (Cons d ds)
  then show ?case by (cases ds) (auto intro: add_pos_pos)
qed

lemma mean_pos:
  assumes "ds \<noteq> []" "\<forall>d \<in> set ds. 0 < d"
  shows "\<exists>mu. mean ds = Inr mu \<and> 0 < mu"
  using assms sum_list_pos_real[OF assms] by (simp add: mean_def)

lemma sampleStd_total:
  "\<exists>sd. sampleStd ds = Inr sd \<and> 0 \<le> sd"
proof (cases "length ds < 2")
  case True
  then show ?thesis by (simp add: sampleStd_def)
next
  case False
  then have n: "0 \<le> real (length ds) - 1" and ne: "ds \<noteq> []" by auto
  have "0 \<le> (\<Sum>v\<leftarrow>ds. (v - m)\<^sup>2)" for m :: real
    by (rule sum_list_nonneg) auto
  then show ?thesis using False n ne
    by (simp add: sampleStd_def mean_def)
qed

lemma timeline_statistics:
  assumes "parseTimestampsToMonotonicMinutes rt ts = Inr tml"
  shows "\<exists>mu sd. mean (intervalsFromTimelineMinutes tml) = Inr mu \<and> 0 < mu
     \<and> sampleStd (intervalsFromTimelineMinutes tml) = Inr sd \<and> 0 \<le> sd"
proof -
  from timeline_sorted[OF assms] have s: "sorted_wrt (<) tml" and l: "2 \<le> length tml" by simp_all
  have "length (intervalsFromTimelineMinutes tml) \<noteq> 0"
    using l by simp
  then have "intervalsFromTimelineMinutes tml \<noteq> []"
    by (simp del: length_intervals)
  from mean_pos[OF this intervals_pos[OF s]] sampleStd_total show ?thesis by blast
qed

subsection \<open>The winner-timestamps mode\<close>

lemma winnerTimestampsResult_fields:
  assumes cv: "cv = intervalCv_of sd mu"
    and c: "c = cadenceModel_of cv"
    and R: "R = regularRemaining_of mu (elapsed_of inputs)"
    and W: "W = optimalWaitB c mu R (probabilityTarget_of inputs) (maxWait_of inputs)"
    and P: "P = probabilityWithinOptimalB c mu R W"
    and out: "out = winnerTimestampsResult rt inputs ds mu sd"
  shows "out_mode out = Winner_timestamps"
    "rates out = None"
    "cadence_analysis out = Some \<lparr> intervals_minutes = map round2 ds,
         interval_mean_minutes = round2 mu, interval_std_minutes = round2 sd,
         interval_cv = round2 cv, cadence_model = c \<rparr>"
    "wait_estimates_minutes out = waitStats_of c mu R"
    "optimal_wait_minutes (recommendation out) = round2 W"
    "probability_next_winner_within_optimal_wait (recommendation out) = round_to P 4"
    "economics out = economics_of inputs (round2 W) P mu"
  unfolding cv c R W P out
  by (simp_all add: winnerTimestampsResult_def Let_def withEconomics_economics economics_of_def
      split: option.splits)

lemma runWinnerTimestampsMode_valid:
  assumes "winner_timestamps inputs = Some ts"
    "parseTimestampsToMonotonicMinutes rt ts = Inr tml"
    "mean (intervalsFromTimelineMinutes tml) = Inr mu"
    "sampleStd (intervalsFromTimelineMinutes tml) = Inr sd"
  shows "runWinnerTimestampsMode rt inputs
     = Inr (winnerTimestampsResult rt inputs (intervalsFromTimelineMinutes tml) mu sd)"
  using assms timeline_sorted[OF assms(2)]
  by (simp add: runWinnerTimestampsMode_def Let_def)

lemma runWinnerTimestampsMode_InrD:
  assumes "runWinnerTimestampsMode rt inputs = Inr out"
  shows "\<exists>ts tml mu sd. winner_timestamps inputs = Some ts
     \<and> parseTimestampsToMonotonicMinutes rt ts = Inr tml
     \<and> mean (intervalsFromTimelineMinutes tml) = Inr mu \<and> 0 < mu
     \<and> sampleStd (intervalsFromTimelineMinutes tml) = Inr sd \<and> 0 \<le> sd
     \<and> out = winnerTimestampsResult rt inputs (intervalsFromTimelineMinutes tml) mu sd"
proof -
  from assms obtain ts where ts: "winner_timestamps inputs = Some ts"
    by (cases "winner_timestamps inputs") (simp_all add: runWinnerTimestampsMode_def)
  from assms ts obtain tml where tml: "parseTimestampsToMonotonicMinutes rt ts = Inr tml"
    by (cases "parseTimestampsToMonotonicMinutes rt ts")
       (simp_all add: runWinnerTimestampsMode_def split: if_splits)
  from timeline_statistics[OF tml] obtain mu sd where
    s: "mean (intervalsFromTimelineMinutes tml) = Inr mu" "0 < mu"
       "sampleStd (intervalsFromTimelineMinutes tml) = Inr sd" "0 \<le> sd"
    by blast
  from runWinnerTimestampsMode_valid[OF ts tml s(1) s(3)] assms
  have "out = winnerTimestampsResult rt inputs (intervalsFromTimelineMinutes tml) mu sd"
    by simp
  with ts tml s show ?thesis by blast
qed

lemma runWinnerTimestampsMode_error_iff:
  assumes "winner_timestamps inputs = Some ts"
  shows "(\<exists>e. runWinnerTimestampsMode rt inputs = Inl e)
     = (\<exists>e. parseTimestampsToMonotonicMinutes rt ts = Inl e)"
proof (cases "parseTimestampsToMonotonicMinutes rt ts")
  case (Inl e)
  then show ?thesis using assms
    by (simp add: runWinnerTimestampsMode_def)
next
  case (Inr tml)
  from timeline_statistics[OF Inr] obtain mu sd where
    s: "mean (intervalsFromTimelineMinutes tml) = Inr mu"
       "sampleStd (intervalsFromTimelineMinutes tml) = Inr sd"
    by blast
  from runWinnerTimestampsMode_valid[OF assms Inr s] Inr show ?thesis by simp
qed

lemma run_winner_fields:
  assumes run: "run rt inputs = Inr out" and md: "mode inputs = Winner_timestamps"
    and ts: "winner_timestamps inputs = Some ts"
    and tml: "parseTimestampsToMonotonicMinutes rt ts = Inr tml"
    and mu: "mean (intervalsFromTimelineMinutes tml) = Inr mu"
    and sd: "sampleStd (intervalsFromTimelineMinutes tml) = Inr sd"
  shows "out = winnerTimestampsResult rt inputs (intervalsFromTimelineMinutes tml) mu sd"
  using runWinnerTimestampsMode_valid[OF ts tml mu sd, of ] run md
  by (simp add: run_def)

subsection \<open>Both modes\<close>

lemma run_InrD:
  assumes "run rt inputs = Inr out"
  shows "mode inputs = Purchase_rate \<or> mode inputs = Winner_timestamps"
  using assms by (cases "mode inputs") (simp_all add: run_def)

lemma run_unrounded_wait:
  assumes "run rt inputs = Inr out"
  shows "\<exists>W. (if mode inputs = Purchase_rate then 1 else 0) \<le> W \<and> W \<le> maxWait_of inputs
     \<and> optimal_wait_minutes (recommendation out) = round2 W"
proof -
  from run_InrD[OF assms] show ?thesis
  proof
    assume md: "mode inputs = Purchase_rate"
    note f = run_purchase_rate_fields(2)[OF assms md refl refl]
    have "1 \<le> optimalWaitA (meanIntervalA_of inputs) (probabilityTarget_of inputs)
              (maxWait_of inputs)
       \<and> optimalWaitA (meanIntervalA_of inputs) (probabilityTarget_of inputs)
              (maxWait_of inputs) \<le> maxWait_of inputs"
      unfolding optimalWaitA_def Let_def by (rule clamp_bounds[OF maxWait_of_ge_one])
    then show ?thesis using f md by auto
  next
    assume md: "mode inputs = Winner_timestamps"
    from assms md have "runWinnerTimestampsMode rt inputs = Inr out" by (simp add: run_def)
    from runWinnerTimestampsMode_InrD[OF this] obtain ds mu sd where
      out: "out = winnerTimestampsResult rt inputs ds mu sd" by blast
    note f = winnerTimestampsResult_fields(5)[OF refl refl refl refl refl out]
    have m: "0 \<le> maxWait_of inputs" using maxWait_of_ge_one[of inputs] by simp
    have "0 \<le> optimalWaitB c mu R q (maxWait_of inputs)
       \<and> optimalWaitB c mu R q (maxWait_of inputs) \<le> maxWait_of inputs" for c R q
      unfolding optimalWaitB_def Let_def by (rule clamp_bounds[OF m])
    then show ?thesis using f md by auto
  qed
qed

lemma run_wait_estimates_nonneg:
  assumes "run rt inputs = Inr out"
  shows "0 \<le> mean_interval_between_winners (wait_estimates_minutes out)"
    "0 \<le> expected_wait_to_next_winner (wait_estimates_minutes out)"
    "0 \<le> p50_wait_to_next_winner (wait_estimates_minutes out)"
    "0 \<le> p75_wait_to_next_winner (wait_estimates_minutes out)"
    "0 \<le> p90_wait_to_next_winner (wait_estimates_minutes out)"
proof -
  have "\<exists>c mu R T. (wait_estimates_minutes out = uniformWaitStats T)
      \<or> (wait_estimates_minutes out = waitStats_of c mu R \<and> 0 \<le> mu \<and> 0 \<le> R)"
    using run_InrD[OF assms]
  proof
    assume md: "mode inputs = Purchase_rate"
    from run_purchase_rate_fields(1)[OF assms md refl refl] show ?thesis by blast
  next
    assume md: "mode inputs = Winner_timestamps"
    from assms md have "runWinnerTimestampsMode rt inputs = Inr out" by (simp add: run_def)
    from runWinnerTimestampsMode_InrD[OF this] obtain ds mu sd where
      out: "out = winnerTimestampsResult rt inputs ds mu sd" and mu: "0 < mu" by blast
    note f = winnerTimestampsResult_fields(4)[OF refl refl refl refl refl out]
    have "0 \<le> regularRemaining_of mu (elapsed_of inputs)"
      by (simp add: regularRemaining_of_def)
    with f mu show ?thesis by (metis less_imp_le)
  qed
  then obtain c mu R T where
    d: "(wait_estimates_minutes out = uniformWaitStats T)
      \<or> (wait_estimates_minutes out = waitStats_of c mu R \<and> 0 \<le> mu \<and> 0 \<le> R)"
    by blast
  show "0 \<le> mean_interval_between_winners (wait_estimates_minutes out)"
    using d uniformWaitStats_nonneg(1)[of T] waitStats_of_nonneg(1)[of mu R c] by auto
  show "0 \<le> expected_wait_to_next_winner (wait_estimates_minutes out)"
    using d uniformWaitStats_nonneg(2)[of T] waitStats_of_nonneg(2)[of mu R c] by auto
  show "0 \<le> p50_wait_to_next_winner (wait_estimates_minutes out)"
    using d uniformWaitStats_nonneg(3)[of T] waitStats_of_nonneg(3)[of mu R c] by auto
  show "0 \<le> p75_wait_to_next_winner (wait_estimates_minutes out)"
    using d uniformWaitStats_nonneg(4)[of T] waitStats_of_nonneg(4)[of mu R c] by auto
  show "0 \<le> p90_wait_to_next_winner (wait_estimates_minutes out)"
    using d uniformWaitStats_nonneg(5)[of T] waitStats_of_nonneg(5)[of mu R c] by auto
qed


subsection \<open>The examples, evaluated\<close>

lemma scenario1_fields:
  "mode scenario1 = Purchase_rate"
  "is_weekend_or_holiday scenario1 = Some True"
  "model scenario1 = Some Global"
  "observed_purchases scenario1 = Some 5"
  "observed_minutes scenario1 = Some 2"
  "observed_lanes scenario1 = Some 5"
  "total_open_lanes scenario1 = Some 15"
  by (simp_all add: scenario1_def)

lemma scenario1_values:
  "laneScale Global (Some 15) 5 = 3"
  "lambdaEstimated Global (lambdaObserved 5 2) 3 5 = 15 / 2"
  "confidenceBuffer_of scenario1 = 1 / 5"
  "lambdaConservative (15 / 2) (1 / 5) = 6"
  "meanIntervalA (thresholdFromDay True) 6 = 25 / 3"
  "probabilityTarget_of scenario1 = 3 / 4"
  "maxWait_of scenario1 = 30"
  "optimalWaitA (25 / 3) (3 / 4) 30 = 25 / 4"
  "probabilityWithinUniform (25 / 3) (25 / 4) = 3 / 4"
  by (simp_all add: laneScale_def lambdaEstimated_def lambdaObserved_def
      confidenceBuffer_of_def scenario1_def lambdaConservative_def meanIntervalA_def
      thresholdFromDay_def probabilityTarget_of_def maxWait_of_def optimalWaitA_def
      probabilityWithinUniform_def EPSILON_def clamp_def)

lemma scenario1_rounded:
  "round_to (1 / 50) 4 = 0.02" "round2 6 = 6" "round2 (25 / 3) = 8.33"
  "round2 (25 / 4) = 6.25" "round_to (3 / 4) 4 = 0.75"
  by (simp_all add: num_defs)

lemma scenario1_run:
  "run rt scenario1 = Inr (purchaseRateResult rt scenario1 True Global 5 2 5)"
  using runPurchaseRateMode_valid[OF scenario1_fields(2,3,4) _ scenario1_fields(5) _
      scenario1_fields(6), of rt]
  by (simp add: run_def scenario1_fields(1))








lemma slow_lane_example_fields:
  "mode slow_lane_example = Purchase_rate"
  "is_weekend_or_holiday slow_lane_example = Some True"
  "model slow_lane_example = Some Global"
  "observed_purchases slow_lane_example = Some 1"
  "observed_minutes slow_lane_example = Some 2"
  "observed_lanes slow_lane_example = Some 1"
  "total_open_lanes slow_lane_example = None"
  "max_wait_minutes slow_lane_example = Some 7.456"
  "probabilityTarget_of slow_lane_example = 3 / 4"
  "maxWait_of slow_lane_example = 7.456"
  "confidenceBuffer_of slow_lane_example = 1 / 5"
  by (simp_all add: slow_lane_example_def probabilityTarget_of_def
      maxWait_of_def confidenceBuffer_of_def clamp_def)

lemma slow_lane_example_run:
  "run rt slow_lane_example = Inr (purchaseRateResult rt slow_lane_example True Global 1 2 1)"
  using runPurchaseRateMode_valid[OF slow_lane_example_fields(2,3,4) _
      slow_lane_example_fields(5) _ slow_lane_example_fields(6), of rt]
  by (simp add: run_def slow_lane_example_fields(1))

lemma slow_lane_example_interval: "meanIntervalA_of slow_lane_example = 125"
  by (simp add: meanIntervalA_of_def Let_def slow_lane_example_fields laneScale_def
      lambdaEstimated_def lambdaObserved_def lambdaConservative_def meanIntervalA_def
      thresholdFromDay_def EPSILON_def)

lemmas parse_defs = parseTimestampsToMonotonicMinutes_def parseHmsToSeconds_def HMS_RE_def
  is_digit_def Number_def advance.simps Let_def

lemma example_fields:
  "mode regular_example = Winner_timestamps"
  "mode mixed_example = Winner_timestamps"
  "mode random_example = Winner_timestamps"
  "winner_timestamps regular_example = Some [''10:00'', ''10:10'', ''10:20'']"
  "winner_timestamps mixed_example
     = Some [''10:00:00'', ''10:05:01'', ''10:15:02'', ''10:30:03'']"
  "winner_timestamps random_example = Some [''10:00'', ''10:02'', ''10:12'', ''10:30'']"
  by (simp_all add: regular_example_def mixed_example_def random_example_def
      timestamps_example_def)

lemma example_timelines:
  "parseTimestampsToMonotonicMinutes rt [''10:00'', ''10:10'', ''10:20''] = Inr [600, 610, 620]"
  "parseTimestampsToMonotonicMinutes rt [''10:00:00'', ''10:05:01'', ''10:15:02'', ''10:30:03'']
     = Inr [600, 36301 / 60, 36902 / 60, 37803 / 60]"
  "parseTimestampsToMonotonicMinutes rt [''10:00'', ''10:02'', ''10:12'', ''10:30'']
     = Inr [600, 602, 612, 630]"
  "parseTimestampsToMonotonicMinutes rt [''23:58'', ''00:05''] = Inr [1438, 1445]"
  by (simp_all add: parse_defs)

lemma example_intervals:
  "intervalsFromTimelineMinutes [600, 610, 620] = [10, 10]"
  "intervalsFromTimelineMinutes [600, 36301 / 60, 36902 / 60, 37803 / 60]
     = [301 / 60, 601 / 60, 901 / 60]"
  "intervalsFromTimelineMinutes [600, 602, 612, 630] = [2, 10, 18]"
  "intervalsFromTimelineMinutes [1438, 1445] = [7]"
  by simp_all

lemma example_means:
  "mean [10, 10] = Inr 10" "mean [301 / 60, 601 / 60, 901 / 60] = Inr (601 / 60)" "mean [2, 10, 18] = Inr 10"
  by (simp_all add: mean_def)

lemma example_stds:
  "sampleStd [10, 10] = Inr 0" "sampleStd [301 / 60, 601 / 60, 901 / 60] = Inr 5" "sampleStd [2, 10, 18] = Inr 8"
  by (simp_all add: sampleStd_def mean_def sqrt_25 sqrt_64)

lemma example_statistics:
  "mean (intervalsFromTimelineMinutes [600, 610, 620]) = Inr 10"
  "sampleStd (intervalsFromTimelineMinutes [600, 610, 620]) = Inr 0"
  "mean (intervalsFromTimelineMinutes [600, 36301 / 60, 36902 / 60, 37803 / 60])
     = Inr (601 / 60)"
  "sampleStd (intervalsFromTimelineMinutes [600, 36301 / 60, 36902 / 60, 37803 / 60]) = Inr 5"
  "mean (intervalsFromTimelineMinutes [600, 602, 612, 630]) = Inr 10"
  "sampleStd (intervalsFromTimelineMinutes [600, 602, 612, 630]) = Inr 8"
  unfolding example_intervals by (rule example_means example_stds)+


lemma example_cadences:
  "cadenceModel_of (intervalCv_of 0 10) = Regular"
  "cadenceModel_of (intervalCv_of 5 (601 / 60)) = Mixed"
  "cadenceModel_of (intervalCv_of 8 10) = Random"
  by (simp_all add: cadenceModel_of_def intervalCv_of_def EPSILON_def)

lemma example_runs:
  "run rt regular_example = Inr (winnerTimestampsResult rt regular_example [10, 10] 10 0)"
  "run rt mixed_example
     = Inr (winnerTimestampsResult rt mixed_example [301 / 60, 601 / 60, 901 / 60] (601 / 60) 5)"
  "run rt random_example = Inr (winnerTimestampsResult rt random_example [2, 10, 18] 10 8)"
proof -
  have m: "mode regular_example = Winner_timestamps" "mode mixed_example = Winner_timestamps"
    "mode random_example = Winner_timestamps"
    and t: "winner_timestamps regular_example = Some [''10:00'', ''10:10'', ''10:20'']"
    "winner_timestamps mixed_example
       = Some [''10:00:00'', ''10:05:01'', ''10:15:02'', ''10:30:03'']"
    "winner_timestamps random_example = Some [''10:00'', ''10:02'', ''10:12'', ''10:30'']"
    by (simp_all add: regular_example_def mixed_example_def random_example_def
        timestamps_example_def)
  show "run rt regular_example = Inr (winnerTimestampsResult rt regular_example [10, 10] 10 0)"
    using runWinnerTimestampsMode_valid[OF t(1) example_timelines(1), of 10 0]
    by (simp add: run_def m example_intervals example_means example_stds)
  show "run rt mixed_example
     = Inr (winnerTimestampsResult rt mixed_example [301 / 60, 601 / 60, 901 / 60] (601 / 60) 5)"
    using runWinnerTimestampsMode_valid[OF t(2) example_timelines(2), of "601 / 60" 5]
    by (simp add: run_def m example_intervals example_means example_stds)
  show "run rt random_example = Inr (winnerTimestampsResult rt random_example [2, 10, 18] 10 8)"
    using runWinnerTimestampsMode_valid[OF t(3) example_timelines(3), of 10 8]
    by (simp add: run_def m example_intervals example_means example_stds)
qed

lemma regular_example_values:
  "elapsed_of regular_example = 6" "maxWait_of regular_example = 30"
  "probabilityTarget_of regular_example = 3 / 4"
  by (simp_all add: regular_example_def timestamps_example_def elapsed_of_def maxWait_of_def
      probabilityTarget_of_def clamp_def)


lemma c7_example_fields:
  "mode mixed_format_example = Winner_timestamps"
  "winner_timestamps mixed_format_example = Some [''12:00'', ''2024-01-01T12:05:00Z'']"
  "mode unordered_dates_example = Winner_timestamps"
  "winner_timestamps unordered_dates_example
     = Some [''2024-01-01T12:05:00Z'', ''2024-01-01T12:00:00Z'']"
  "mode ordered_dates_example = Winner_timestamps"
  "winner_timestamps ordered_dates_example
     = Some [''2024-01-01T12:00:00Z'', ''2024-01-01T12:05:00Z'']"
  by (simp_all add: mixed_format_example_def unordered_dates_example_def
      ordered_dates_example_def timestamps_example_def)

lemma c7_example_parses:
  "parseHmsToSeconds ''12:00'' = Some 43200"
  "parseHmsToSeconds ''2024-01-01T12:00:00Z'' = None"
  "parseHmsToSeconds ''2024-01-01T12:05:00Z'' = None"
  "date_parse iso_runtime ''12:00'' = None"
  "date_parse iso_runtime ''2024-01-01T12:00:00Z'' = Some 1704110400000"
  "date_parse iso_runtime ''2024-01-01T12:05:00Z'' = Some 1704110700000"
  by (simp_all add: parseHmsToSeconds_def HMS_RE_def is_digit_def Number_def iso_runtime_def)

section \<open>Claims\<close>

text \<open>
  C1. On the first documented scenario (weekend, global model, 5 purchases in 2 minutes on
  5 of 15 open lanes, buffer 0.2, target 0.75, at most 30 minutes) the engine returns a
  threshold of 50 clients, a win probability of 0.02 per attempt, a conservative rate of
  6 purchases per minute, a mean interval of 8.33 minutes, an optimal wait of 6.25 minutes
  and a probability of 0.75 that the next winner comes within that wait.
\<close>

theorem C1_scenario_purchase_rate:
  "\<exists>out r. run rt scenario1 = Inr out
     \<and> k_threshold_clients out = Some 50
     \<and> probability_win_per_attempt out = Some 0.02
     \<and> rates out = Some r \<and> purchases_per_minute_conservative r = 6.0
     \<and> mean_interval_between_winners (wait_estimates_minutes out) = 8.33
     \<and> optimal_wait_minutes (recommendation out) = 6.25
     \<and> probability_next_winner_within_optimal_wait (recommendation out) = 0.75"
proof -
  define out where "out = purchaseRateResult rt scenario1 True Global 5 2 5"
  have i: "is_weekend_or_holiday scenario1 = Some True" "model scenario1 = Some Global"
    "observed_purchases scenario1 = Some 5" "observed_minutes scenario1 = Some 2"
    "observed_lanes scenario1 = Some 5" and t: "total_open_lanes scenario1 = Some 15"
    and md: "mode scenario1 = Purchase_rate"
    by (simp_all add: scenario1_def)
  have run: "run rt scenario1 = Inr out"
    using runPurchaseRateMode_valid[OF i(1) i(2) i(3) _ i(4) _ i(5), of rt]
    by (simp add: run_def md out_def)
  note f = purchaseRateResult_fields[OF refl refl refl refl refl out_def,
      unfolded t scenario1_values]
  have mi: "mean_interval_between_winners (uniformWaitStats (25 / 3)) = round2 (25 / 3)"
    by (simp add: uniformWaitStats_def Let_def)
  show ?thesis
    using run f(2) f(3) f(4) f(6) f(7) f(8) mi
    by (simp add: scenario1_rounded thresholdFromDay_def)
qed





text \<open>
  C4, as amended. On every input for which the engine returns a result, in either mode,
  the five wait estimates are not negative, and the reported optimal wait is the
  two-decimal rounding of a wait between the lower bound of the mode (1 in the
  purchase-rate mode, 0 in the winner-timestamps mode) and the effective maximum wait
  \<open>M = max max_wait_minutes 1\<close> (30 by default). So it lies between the lower bound and
  \<open>M\<close> rounded to two decimals, and between the lower bound and \<open>M\<close> itself whenever \<open>M\<close>
  has at most two decimals.
\<close>

theorem C4_nonnegative_and_bounded:
  assumes "run rt inputs = Inr out" and "M = maxWait_of inputs"
    and "lower = (if mode inputs = Purchase_rate then 1 else 0)"
  shows "0 \<le> mean_interval_between_winners (wait_estimates_minutes out)
     \<and> 0 \<le> expected_wait_to_next_winner (wait_estimates_minutes out)
     \<and> 0 \<le> p50_wait_to_next_winner (wait_estimates_minutes out)
     \<and> 0 \<le> p75_wait_to_next_winner (wait_estimates_minutes out)
     \<and> 0 \<le> p90_wait_to_next_winner (wait_estimates_minutes out)
     \<and> (\<exists>W. lower \<le> W \<and> W \<le> M \<and> optimal_wait_minutes (recommendation out) = round2 W)
     \<and> lower \<le> optimal_wait_minutes (recommendation out)
     \<and> optimal_wait_minutes (recommendation out) \<le> round2 M
     \<and> (M = of_int k / 100 \<longrightarrow> optimal_wait_minutes (recommendation out) \<le> M)"
proof -
  from run_unrounded_wait[OF assms(1)] obtain W where
    W: "lower \<le> W" "W \<le> M" "optimal_wait_minutes (recommendation out) = round2 W"
    unfolding assms(2,3) by blast
  have lo: "lower \<le> round2 W"
  proof (cases "mode inputs = Purchase_rate")
    case True
    then show ?thesis using W(1) assms(3) by (simp add: round2_def round_to_ge_one)
  next
    case False
    then show ?thesis using W(1) assms(3) by (simp add: round2_def round_to_nonneg)
  qed
  have hi: "round2 W \<le> round2 M"
    using W(2) by (simp add: round2_def round_to_mono)
  have "round_to (of_int k / 10 ^ 2) 2 = of_int k / 10 ^ 2"
    by (rule round_to_fixed)
  then have "round2 (of_int k / 100) = of_int k / 100"
    unfolding round2_def by simp
  then have fx: "round2 M = M" if "M = of_int k / 100"
    unfolding that .
  show ?thesis
    using run_wait_estimates_nonneg[OF assms(1)] W lo hi fx by auto
qed

text \<open>
  Scenario 1 and the regular example satisfy the hypotheses, with a maximum of
  3000 / 100 minutes.
\<close>

theorem C4_nonnegative_and_bounded_witness:
  "run example_runtime scenario1
     = Inr (purchaseRateResult example_runtime scenario1 True Global 5 2 5)
   \<and> maxWait_of scenario1 = of_int 3000 / 100
   \<and> 0 \<le> mean_interval_between_winners (wait_estimates_minutes
        (purchaseRateResult example_runtime scenario1 True Global 5 2 5))
   \<and> 0 \<le> p90_wait_to_next_winner (wait_estimates_minutes
        (purchaseRateResult example_runtime scenario1 True Global 5 2 5))
   \<and> 1 \<le> optimal_wait_minutes (recommendation
        (purchaseRateResult example_runtime scenario1 True Global 5 2 5))
   \<and> optimal_wait_minutes (recommendation
        (purchaseRateResult example_runtime scenario1 True Global 5 2 5))
       \<le> maxWait_of scenario1
   \<and> run example_runtime regular_example
     = Inr (winnerTimestampsResult example_runtime regular_example [10, 10] 10 0)
   \<and> 0 \<le> expected_wait_to_next_winner (wait_estimates_minutes
        (winnerTimestampsResult example_runtime regular_example [10, 10] 10 0))
   \<and> 0 \<le> optimal_wait_minutes (recommendation
        (winnerTimestampsResult example_runtime regular_example [10, 10] 10 0))
   \<and> optimal_wait_minutes (recommendation
        (winnerTimestampsResult example_runtime regular_example [10, 10] 10 0))
       \<le> round2 (maxWait_of regular_example)"
proof -
  have m: "mode regular_example = Winner_timestamps"
    by (simp add: regular_example_def timestamps_example_def)
  show ?thesis
    using C4_nonnegative_and_bounded[OF scenario1_run refl refl, of example_runtime 3000]
      C4_nonnegative_and_bounded[OF example_runs(1) refl refl, of example_runtime 3000]
    by (simp add: scenario1_run example_runs scenario1_fields scenario1_values m)
qed

text \<open>
  The claim as stated fails where the maximum wait has more than two decimals and
  binds: with a maximum of 7.456 minutes and an interval of 125 minutes the reported
  optimal wait is 7.46.
\<close>

theorem C4_nonnegative_and_bounded_counterexample:
  "run example_runtime slow_lane_example
     = Inr (purchaseRateResult example_runtime slow_lane_example True Global 1 2 1)
   \<and> max_wait_minutes slow_lane_example = Some 7.456
   \<and> maxWait_of slow_lane_example = 7.456
   \<and> optimal_wait_minutes (recommendation
        (purchaseRateResult example_runtime slow_lane_example True Global 1 2 1)) = 7.46
   \<and> maxWait_of slow_lane_example
       < optimal_wait_minutes (recommendation
           (purchaseRateResult example_runtime slow_lane_example True Global 1 2 1))"
proof -
  note f = run_purchase_rate_fields(2)[OF slow_lane_example_run
      slow_lane_example_fields(1) refl refl, of example_runtime,
      unfolded slow_lane_example_interval slow_lane_example_fields]
  have "round2 (optimalWaitA 125 (3 / 4) 7.456) = 7.46"
    by (simp add: optimalWaitA_def Let_def num_defs)
  then show ?thesis
    using f by (simp add: slow_lane_example_run slow_lane_example_fields)
qed




text \<open>
  C6. In the winner-timestamps mode, when there are at least two timestamps and each is a
  bare time of day, parsing succeeds and the timeline is strictly increasing, so every
  interval is positive. The first sample is kept; each later sample is its time of day
  plus the least number of whole days that places it after the sample before it. The run
  returns a result and reports the intervals of that timeline, rounded. In particular
  23:58 followed by 00:05 gives the timeline 1438, 1445 and the single interval of 7
  minutes.
\<close>

theorem C6_bare_times_monotonic:
  assumes "mode inputs = Winner_timestamps" and "winner_timestamps inputs = Some ts"
    and "2 \<le> length ts" and "\<forall>t\<in>set ts. parseHmsToSeconds t \<noteq> None"
    and "secs = map (the \<circ> parseHmsToSeconds) ts"
  shows "\<exists>tml out ca. parseTimestampsToMonotonicMinutes rt ts = Inr tml
     \<and> length tml = length ts \<and> sorted_wrt (<) tml
     \<and> (\<forall>d\<in>set (intervalsFromTimelineMinutes tml). 0 < d)
     \<and> tml ! 0 = real_of_int (secs ! 0) / 60
     \<and> (\<forall>i. 0 < i \<and> i < length ts \<longrightarrow>
           (\<exists>k::nat. tml ! i = real_of_int (secs ! i + 86400 * int k) / 60
              \<and> tml ! (i - 1) < tml ! i
              \<and> (\<forall>j<k. real_of_int (secs ! i + 86400 * int j) / 60 \<le> tml ! (i - 1))))
     \<and> run rt inputs = Inr out \<and> cadence_analysis out = Some ca
     \<and> intervals_minutes ca = map round2 (intervalsFromTimelineMinutes tml)
     \<and> parseTimestampsToMonotonicMinutes rt [''23:58'', ''00:05''] = Inr [1438, 1445]
     \<and> intervalsFromTimelineMinutes [1438, 1445] = [7]"
proof -
  define tml where "tml = map (\<lambda>seconds. real_of_int seconds / 60) (absoluteSeconds secs)"
  have p: "parseTimestampsToMonotonicMinutes rt ts = Inr tml"
    unfolding tml_def assms(5) by (rule parse_all_bare[OF assms(3,4)])
  note s = timeline_sorted[OF p]
  have len: "length secs = length ts" by (simp add: assms(5))
  have ne: "secs \<noteq> []" using len assms(3) by auto
  have first: "tml ! 0 = real_of_int (secs ! 0) / 60"
    using ne by (simp add: tml_def absoluteSeconds_first)
  have step: "\<exists>k::nat. tml ! i = real_of_int (secs ! i + 86400 * int k) / 60
              \<and> tml ! (i - 1) < tml ! i
              \<and> (\<forall>j<k. real_of_int (secs ! i + 86400 * int j) / 60 \<le> tml ! (i - 1))"
    if i: "0 < i" "i < length ts" for i
  proof -
    from absoluteSeconds_nth[OF i(1), of secs] i(2) len obtain k :: nat where
      k: "absoluteSeconds secs ! i = secs ! i + 86400 * int k"
        "absoluteSeconds secs ! (i - 1) < absoluteSeconds secs ! i"
        "\<forall>j<k. secs ! i + 86400 * int j \<le> absoluteSeconds secs ! (i - 1)"
      by auto
    have n: "tml ! i = real_of_int (absoluteSeconds secs ! i) / 60"
      "tml ! (i - 1) = real_of_int (absoluteSeconds secs ! (i - 1)) / 60"
      using i len by (simp_all add: tml_def)
    have "tml ! i = real_of_int (secs ! i + 86400 * int k) / 60"
      unfolding n k(1) ..
    moreover have "tml ! (i - 1) < tml ! i"
      unfolding n using k(2) by (simp add: divide_strict_right_mono)
    moreover have "\<forall>j<k. real_of_int (secs ! i + 86400 * int j) / 60 \<le> tml ! (i - 1)"
    proof (intro allI impI)
      fix j assume "j < k"
      with k(3) have "secs ! i + 86400 * int j \<le> absoluteSeconds secs ! (i - 1)" by blast
      then have "real_of_int (secs ! i + 86400 * int j)
          \<le> real_of_int (absoluteSeconds secs ! (i - 1))"
        by (rule of_int_le_iff[THEN iffD2])
      then show "real_of_int (secs ! i + 86400 * int j) / 60 \<le> tml ! (i - 1)"
        unfolding n by (rule divide_right_mono) simp
    qed
    ultimately show ?thesis by blast
  qed
  from timeline_statistics[OF p] obtain mu sd where
    st: "mean (intervalsFromTimelineMinutes tml) = Inr mu"
        "sampleStd (intervalsFromTimelineMinutes tml) = Inr sd"
    by blast
  define out where
    "out = winnerTimestampsResult rt inputs (intervalsFromTimelineMinutes tml) mu sd"
  have run: "run rt inputs = Inr out"
    using runWinnerTimestampsMode_valid[OF assms(2) p st] assms(1)
    by (simp add: run_def out_def)
  note f = winnerTimestampsResult_fields(3)[OF refl refl refl refl refl out_def]
  have ca: "\<exists>ca. cadence_analysis out = Some ca
     \<and> intervals_minutes ca = map round2 (intervalsFromTimelineMinutes tml)"
    unfolding f by simp
  have ex: "parseTimestampsToMonotonicMinutes rt [''23:58'', ''00:05''] = Inr [1438, 1445]"
    "intervalsFromTimelineMinutes [1438, 1445] = [7]"
    by (rule example_timelines example_intervals)+
  show ?thesis
    using p s intervals_pos first step run ca ex by blast
qed

text \<open>
  The two samples around midnight satisfy the hypotheses.
\<close>

theorem C6_bare_times_monotonic_witness:
  "2 \<le> length [''23:58'', ''00:05'']
   \<and> parseHmsToSeconds ''23:58'' = Some 86280
   \<and> parseHmsToSeconds ''00:05'' = Some 300
   \<and> (\<exists>tml out ca.
         parseTimestampsToMonotonicMinutes example_runtime [''23:58'', ''00:05''] = Inr tml
         \<and> length tml = 2 \<and> sorted_wrt (<) tml \<and> tml ! 0 = 1438
         \<and> intervalsFromTimelineMinutes tml = [7]
         \<and> run example_runtime midnight_example = Inr out
         \<and> cadence_analysis out = Some ca \<and> intervals_minutes ca = [7])"
proof -
  have h: "parseHmsToSeconds ''23:58'' = Some 86280" "parseHmsToSeconds ''00:05'' = Some 300"
    by (simp_all add: parseHmsToSeconds_def HMS_RE_def is_digit_def Number_def)
  have a: "\<forall>t\<in>set [''23:58'', ''00:05'']. parseHmsToSeconds t \<noteq> None"
    using h by simp
  have i: "mode midnight_example = Winner_timestamps"
    "winner_timestamps midnight_example = Some [''23:58'', ''00:05'']"
    by (simp_all add: midnight_example_def timestamps_example_def)
  have r: "round2 7 = 7" by (simp add: num_defs)
  from C6_bare_times_monotonic[OF i _ a refl, of example_runtime]
  show ?thesis
    using h by (auto simp add: example_timelines r)
qed

text \<open>
  C7. In the winner-timestamps mode, when some timestamp is no bare time of day, the
  engine fails, and so returns no result, unless there are at least two timestamps, each
  of them parses as a date-time and the parsed date-times are strictly increasing. In
  particular it fails when a bare time that \<^verbatim>\<open>Date.parse\<close> rejects stands among the
  entries, and when the date-times are out of order.
\<close>

theorem C7_date_time_validation:
  assumes "mode inputs = Winner_timestamps" and "winner_timestamps inputs = Some ts"
    and "\<exists>t\<in>set ts. parseHmsToSeconds t = None"
  shows "((\<exists>e. run rt inputs = Inl e)
           = (\<not> (2 \<le> length ts \<and> (\<forall>t\<in>set ts. date_parse rt t \<noteq> None)
                  \<and> sorted_wrt (<) (map (the \<circ> date_parse rt) ts))))
     \<and> ((\<exists>e. run rt inputs = Inl e) = (\<forall>out. run rt inputs \<noteq> Inr out))
     \<and> ((\<exists>a\<in>set ts. parseHmsToSeconds a \<noteq> None \<and> date_parse rt a = None) \<longrightarrow>
           (\<exists>e. run rt inputs = Inl e))
     \<and> (\<not> sorted_wrt (<) (map (the \<circ> date_parse rt) ts) \<longrightarrow>
           (\<exists>e. run rt inputs = Inl e))"
proof -
  have r: "run rt inputs = runWinnerTimestampsMode rt inputs"
    using assms(1) by (simp add: run_def)
  have main: "(\<exists>e. run rt inputs = Inl e)
           = (\<not> (2 \<le> length ts \<and> (\<forall>t\<in>set ts. date_parse rt t \<noteq> None)
                  \<and> sorted_wrt (<) (map (the \<circ> date_parse rt) ts)))"
    unfolding r runWinnerTimestampsMode_error_iff[OF assms(2)] parse_not_all_bare[OF assms(3)]
    by simp
  have alt: "(\<exists>e. run rt inputs = Inl e) = (\<forall>out. run rt inputs \<noteq> Inr out)"
    by (cases "run rt inputs") simp_all
  show ?thesis using main alt by blast
qed

text \<open>
  A bare time next to a date-time fails, two date-times out of order fail, and the same
  two in order do not.
\<close>

theorem C7_date_time_validation_witness:
  "parseHmsToSeconds ''12:00'' = Some 43200
   \<and> parseHmsToSeconds ''2024-01-01T12:05:00Z'' = None
   \<and> date_parse iso_runtime ''12:00'' = None
   \<and> date_parse iso_runtime ''2024-01-01T12:05:00Z'' = Some 1704110700000
   \<and> (\<exists>e. run iso_runtime mixed_format_example = Inl e)
   \<and> (\<exists>e. run iso_runtime unordered_dates_example = Inl e)
   \<and> \<not> (\<exists>e. run iso_runtime ordered_dates_example = Inl e)"
proof -
  have a: "\<exists>t\<in>set [''12:00'', ''2024-01-01T12:05:00Z'']. parseHmsToSeconds t = None"
    "\<exists>t\<in>set [''2024-01-01T12:05:00Z'', ''2024-01-01T12:00:00Z''].
        parseHmsToSeconds t = None"
    "\<exists>t\<in>set [''2024-01-01T12:00:00Z'', ''2024-01-01T12:05:00Z''].
        parseHmsToSeconds t = None"
    by (simp_all add: c7_example_parses)
  note m = C7_date_time_validation[OF c7_example_fields(1,2) a(1), of iso_runtime]
  note u = C7_date_time_validation[OF c7_example_fields(3,4) a(2), of iso_runtime]
  note d = C7_date_time_validation[OF c7_example_fields(5,6) a(3), of iso_runtime]
  have 1: "\<exists>e. run iso_runtime mixed_format_example = Inl e"
    using m by (simp add: c7_example_parses)
  have 2: "\<exists>e. run iso_runtime unordered_dates_example = Inl e"
    using u by (simp add: c7_example_parses)
  have 3: "\<not> (\<exists>e. run iso_runtime ordered_dates_example = Inl e)"
    using d by (simp add: c7_example_parses)
  show ?thesis using 1 2 3 by (simp add: c7_example_parses)
qed







text \<open>
  C10. In the winner-timestamps mode with a regular cadence, whenever the remaining wait
  \<open>max (\<mu> - elapsed) 0\<close> is at most the maximum wait, the reported probability is exactly
  1; a reported probability below 1 occurs only when the maximum wait cuts the
  remaining wait.
\<close>

theorem C10_regular_probability_one:
  assumes "run rt inputs = Inr out" and "mode inputs = Winner_timestamps"
    and "winner_timestamps inputs = Some ts"
    and "parseTimestampsToMonotonicMinutes rt ts = Inr tml"
    and "mean (intervalsFromTimelineMinutes tml) = Inr mu"
    and "sampleStd (intervalsFromTimelineMinutes tml) = Inr sd"
    and "cadence_analysis out = Some ca" and "cadence_model ca = Regular"
    and "R = max (mu - elapsed_of inputs) 0"
  shows "(R \<le> maxWait_of inputs \<longrightarrow>
            probability_next_winner_within_optimal_wait (recommendation out) = 1)
     \<and> (probability_next_winner_within_optimal_wait (recommendation out) < 1 \<longrightarrow>
            maxWait_of inputs < R)"
proof -
  note out = run_winner_fields[OF assms(1-6)]
  have R: "R = regularRemaining_of mu (elapsed_of inputs)"
    using assms(9) by (simp add: regularRemaining_of_def)
  note f = winnerTimestampsResult_fields[OF refl refl R refl refl out]
  have c: "cadenceModel_of (intervalCv_of sd mu) = Regular"
    using f(3) assms(7,8) by simp
  have R0: "0 \<le> R" using assms(9) by simp
  have one: "probability_next_winner_within_optimal_wait (recommendation out) = 1"
    if le: "R \<le> maxWait_of inputs"
  proof -
    have W: "optimalWaitB Regular mu R (probabilityTarget_of inputs) (maxWait_of inputs) = R"
      using le R0 by (simp add: optimalWaitB_def Let_def clamp_def)
    have "regularProbability_of R R = 1"
    proof (cases "R \<le> EPSILON")
      case True
      then show ?thesis by (simp add: regularProbability_of_def)
    next
      case False
      then have "max R EPSILON = R" "R \<noteq> 0" using EPSILON_pos by simp_all
      then show ?thesis using False by (simp add: regularProbability_of_def clamp_def)
    qed
    then have "probabilityWithinOptimalB Regular mu R R = 1"
      by (simp add: probabilityWithinOptimalB_def Let_def)
    then show ?thesis using f(6) by (simp add: c W round_to_one)
  qed
  then show ?thesis by fastforce
qed

text \<open>
  Equal intervals of ten minutes with six minutes elapsed: the remaining wait of four
  minutes is below the default maximum.
\<close>

theorem C10_regular_probability_one_witness:
  "run example_runtime regular_example
     = Inr (winnerTimestampsResult example_runtime regular_example [10, 10] 10 0)
   \<and> map_option cadence_model (cadence_analysis
        (winnerTimestampsResult example_runtime regular_example [10, 10] 10 0)) = Some Regular
   \<and> max (10 - elapsed_of regular_example) 0 \<le> maxWait_of regular_example
   \<and> probability_next_winner_within_optimal_wait (recommendation
        (winnerTimestampsResult example_runtime regular_example [10, 10] 10 0)) = 1"
proof -
  note f = winnerTimestampsResult_fields(3)[OF refl refl refl refl refl refl,
      of example_runtime regular_example "[10, 10]" 10 0, unfolded example_cadences]
  from C10_regular_probability_one[OF example_runs(1) example_fields(1) example_fields(4)
      example_timelines(1) example_statistics(1,2) f _ refl]
  show ?thesis
    by (simp add: example_runs f regular_example_values)
qed

end
